theory Spec2Isabelle
  imports Main
begin

section \<open>ECMAScript numbers and dates\<close>

text \<open>
  The library computes on ECMAScript \<open>Date\<close> objects. A \<open>Date\<close> holds a time value, the
  number of milliseconds since 1970-01-01T00:00 UTC; it is embedded as an \<open>int\<close>. The
  source reads and builds dates in local time only (\<open>new Date(y, m, d)\<close>, \<open>getFullYear\<close>,
  \<open>getMonth\<close>, \<open>getDate\<close>, \<open>getDay\<close>, \<open>setDate\<close>); the embedding takes the local time zone
  to have the constant offset 0, so local time and UTC agree and no day is shorter or
  longer than 24 hours. Numbers are integers of unbounded size: the range limit of time
  values, \<open>NaN\<close> and fractions are outside the embedding.

  The functions below follow the abstract operations of the ECMAScript specification
  (Day, DayFromYear, YearFromTime, MonthFromTime, DateFromTime, WeekDay, MakeDay).
\<close>

type_synonym Date = int

definition msPerDay :: int where
  "msPerDay = 86400000"

text \<open>The remainder operator \<open>%\<close>: the result has the sign of the dividend.\<close>

definition jsRem :: "int \<Rightarrow> int \<Rightarrow> int" where
  "jsRem a b = sgn a * (\<bar>a\<bar> mod \<bar>b\<bar>)"

definition Day :: "int \<Rightarrow> int" where
  "Day t = t div msPerDay"

definition TimeWithinDay :: "int \<Rightarrow> int" where
  "TimeWithinDay t = t mod msPerDay"

definition DaysInYear :: "int \<Rightarrow> int" where
  "DaysInYear y =
     (if y mod 4 \<noteq> 0 then 365
      else if y mod 100 \<noteq> 0 then 366
      else if y mod 400 \<noteq> 0 then 365
      else 366)"

definition DayFromYear :: "int \<Rightarrow> int" where
  "DayFromYear y =
     365 * (y - 1970) + (y - 1969) div 4 - (y - 1901) div 100 + (y - 1601) div 400"

text \<open>
  YearFromTime is specified as the largest year whose first day is not after the given
  day. It is computed here from the mean year length of 146097/400 days, which is off by
  at most one year, followed by one correction step; \<open>YearFromDay_bracket\<close> and
  \<open>YearFromDay_unique\<close> below show that the result is that year.
\<close>

definition YearFromDay :: "int \<Rightarrow> int" where
  "YearFromDay n =
     (let y = 1970 + (400 * n) div 146097
      in if n < DayFromYear y then y - 1
         else if DayFromYear (y + 1) \<le> n then y + 1
         else y)"

definition YearFromTime :: "int \<Rightarrow> int" where
  "YearFromTime t = YearFromDay (Day t)"

definition InLeapYear :: "int \<Rightarrow> int" where
  "InLeapYear t = (if DaysInYear (YearFromTime t) = 366 then 1 else 0)"

definition DayWithinYear :: "int \<Rightarrow> int" where
  "DayWithinYear t = Day t - DayFromYear (YearFromTime t)"

definition MonthFromTime :: "int \<Rightarrow> int" where
  "MonthFromTime t =
     (let d = DayWithinYear t; l = InLeapYear t
      in if d < 31 then 0
         else if d < 59 + l then 1
         else if d < 90 + l then 2
         else if d < 120 + l then 3
         else if d < 151 + l then 4
         else if d < 181 + l then 5
         else if d < 212 + l then 6
         else if d < 243 + l then 7
         else if d < 273 + l then 8
         else if d < 304 + l then 9
         else if d < 334 + l then 10
         else 11)"

definition DateFromTime :: "int \<Rightarrow> int" where
  "DateFromTime t =
     (let d = DayWithinYear t; l = InLeapYear t; m = MonthFromTime t
      in if m = 0 then d + 1
         else if m = 1 then d - 30
         else if m = 2 then d - 58 - l
         else if m = 3 then d - 89 - l
         else if m = 4 then d - 119 - l
         else if m = 5 then d - 150 - l
         else if m = 6 then d - 180 - l
         else if m = 7 then d - 211 - l
         else if m = 8 then d - 242 - l
         else if m = 9 then d - 272 - l
         else if m = 10 then d - 303 - l
         else d - 333 - l)"

definition WeekDay :: "int \<Rightarrow> int" where
  "WeekDay t = (Day t + 4) mod 7"

text \<open>The number of days from 1 January to the first day of month \<open>mn\<close> (0..11).\<close>

definition DayFromMonth :: "int \<Rightarrow> int \<Rightarrow> int" where
  "DayFromMonth mn l =
     (if mn = 0 then 0
      else if mn = 1 then 31
      else if mn = 2 then 59 + l
      else if mn = 3 then 90 + l
      else if mn = 4 then 120 + l
      else if mn = 5 then 151 + l
      else if mn = 6 then 181 + l
      else if mn = 7 then 212 + l
      else if mn = 8 then 243 + l
      else if mn = 9 then 273 + l
      else if mn = 10 then 304 + l
      else 334 + l)"

text \<open>
  MakeDay: a month outside 0..11 carries into the year, and the day of the month is added
  as a plain offset, so a day outside the month runs into the neighbouring months.
\<close>

definition MakeDay :: "int \<Rightarrow> int \<Rightarrow> int \<Rightarrow> int" where
  "MakeDay year month date =
     (let ym = year + month div 12; mn = month mod 12
      in DayFromYear ym + DayFromMonth mn (if DaysInYear ym = 366 then 1 else 0) + date - 1)"

text \<open>
  \<open>new Date(year, monthIndex, day)\<close>: local midnight of the given day. The constructor
  reads a year from 0 to 99 as 1900 + year.
\<close>

definition newDate :: "int \<Rightarrow> int \<Rightarrow> int \<Rightarrow> Date" where
  "newDate year month date =
     (let yr = (if 0 \<le> year \<and> year \<le> 99 then 1900 + year else year)
      in MakeDay yr month date * msPerDay)"

text \<open>
  \<open>new Date(year, monthIndex, day, hours, minutes)\<close>: the given time of that day.
\<close>

definition newDateHM :: "int \<Rightarrow> int \<Rightarrow> int \<Rightarrow> int \<Rightarrow> int \<Rightarrow> Date" where
  "newDateHM year month date hours minutes =
     newDate year month date + hours * (60 * 60 * 1000) + minutes * (60 * 1000)"

definition getFullYear :: "Date \<Rightarrow> int" where
  "getFullYear t = YearFromTime t"

definition getMonth :: "Date \<Rightarrow> int" where
  "getMonth t = MonthFromTime t"

definition getDate :: "Date \<Rightarrow> int" where
  "getDate t = DateFromTime t"

definition getDay :: "Date \<Rightarrow> int" where
  "getDay t = WeekDay t"

definition getTime :: "Date \<Rightarrow> int" where
  "getTime t = t"

text \<open>\<open>setDate\<close> keeps the year, the month and the time of day of the receiver.\<close>

definition setDate :: "Date \<Rightarrow> int \<Rightarrow> Date" where
  "setDate t dt =
     MakeDay (YearFromTime t) (MonthFromTime t) dt * msPerDay + TimeWithinDay t"

section \<open>Strings\<close>

text \<open>
  \<open>Number.prototype.toString\<close> on an integer, \<open>padStart(2, '0')\<close>, \<open>toLowerCase\<close> and
  \<open>String.prototype.includes\<close> (here \<open>stringIncludes\<close>), on ASCII strings.
\<close>

definition digitChar :: "nat \<Rightarrow> char" where
  "digitChar n = ''0123456789'' ! n"

fun natToString :: "nat \<Rightarrow> string" where
  "natToString n = (if n < 10 then [digitChar n] else natToString (n div 10) @ [digitChar (n mod 10)])"

definition numToString :: "int \<Rightarrow> string" where
  "numToString n = (if n < 0 then CHR ''-'' # natToString (nat (- n)) else natToString (nat n))"

definition padStart2 :: "string \<Rightarrow> string" where
  "padStart2 s = replicate (2 - length s) CHR ''0'' @ s"

definition toLowerChar :: "char \<Rightarrow> char" where
  "toLowerChar c =
     (case map_of (zip ''ABCDEFGHIJKLMNOPQRSTUVWXYZ'' ''abcdefghijklmnopqrstuvwxyz'') c of
        Some l \<Rightarrow> l
      | None \<Rightarrow> c)"

definition toLowerCase :: "string \<Rightarrow> string" where
  "toLowerCase s = map toLowerChar s"

fun isPrefixOf :: "string \<Rightarrow> string \<Rightarrow> bool" where
  "isPrefixOf [] ys = True"
| "isPrefixOf (x # xs) [] = False"
| "isPrefixOf (x # xs) (y # ys) = (x = y \<and> isPrefixOf xs ys)"

fun stringIncludes :: "string \<Rightarrow> string \<Rightarrow> bool" where
  "stringIncludes [] sub = (sub = [])"
| "stringIncludes (c # cs) sub = (isPrefixOf sub (c # cs) \<or> stringIncludes cs sub)"

section \<open>types.ts\<close>

datatype Tempus = ORDINARIUM | ADVENTUS | NATIVITAS | QUADRAGESIMA | TRIDUUM | PASCHALE

text \<open>The string value of each member of the enumeration.\<close>

fun TempusValue :: "Tempus \<Rightarrow> string" where
  "TempusValue ORDINARIUM = ''ORDINARIUM''"
| "TempusValue ADVENTUS = ''ADVENTUS''"
| "TempusValue NATIVITAS = ''NATIVITAS''"
| "TempusValue QUADRAGESIMA = ''QUADRAGESIMA''"
| "TempusValue TRIDUUM = ''TRIDUUM''"
| "TempusValue PASCHALE = ''PASCHALE''"

fun TempusCodes :: "Tempus \<Rightarrow> string" where
  "TempusCodes ORDINARIUM = ''ORD''"
| "TempusCodes ADVENTUS = ''ADV''"
| "TempusCodes NATIVITAS = ''NAT''"
| "TempusCodes QUADRAGESIMA = ''QUA''"
| "TempusCodes TRIDUUM = ''TRI''"
| "TempusCodes PASCHALE = ''PAS''"

datatype Gradus = SOLLEMNITAS | FESTUM | MEMORIA | MEMORIA_AD_LIBITUM | COMMEMORATIO | FERIA

datatype Praecedentia =
    TRIDUUM_1
  | SOLLEMNITAS_DOMINI_IN_CALENDARIO_2
  | DOMINICA_PRIVILEGIATA_2
  | FERIA_IV_CINERUM_2
  | FERIA_HEBDOMADAE_SANCTAE_2
  | DIES_OCTAVAE_PASCHAE_2
  | SOLLEMNITAS_GENERALIS_3
  | SOLLEMNITAS_PROPRIA_PATRONI_4A
  | SOLLEMNITAS_DEDICATIONIS_4B
  | SOLLEMNITAS_TITULI_4C
  | FESTUM_DOMINI_5
  | DOMINICA_NATIVITATIS_6
  | DOMINICA_ORDINARII_6
  | FESTUM_BMV_7
  | FESTUM_SANCTORUM_7
  | FESTUM_PROPRIUM_8
  | FERIA_ADVENTUS_17_24_9
  | DIES_OCTAVAE_NATIVITATIS_9
  | FERIA_QUADRAGESIMAE_9
  | MEMORIA_OBLIGATORIA_10
  | MEMORIA_OBLIGATORIA_PROPRIA_11
  | MEMORIA_AD_LIBITUM_12
  | FERIA_ADVENTUS_13
  | FERIA_NATIVITATIS_13
  | FERIA_PASCHAE_13
  | FERIA_ORDINARII_14

fun PraecedentiaValue :: "Praecedentia \<Rightarrow> int" where
  "PraecedentiaValue TRIDUUM_1 = 100"
| "PraecedentiaValue SOLLEMNITAS_DOMINI_IN_CALENDARIO_2 = 200"
| "PraecedentiaValue DOMINICA_PRIVILEGIATA_2 = 201"
| "PraecedentiaValue FERIA_IV_CINERUM_2 = 202"
| "PraecedentiaValue FERIA_HEBDOMADAE_SANCTAE_2 = 203"
| "PraecedentiaValue DIES_OCTAVAE_PASCHAE_2 = 204"
| "PraecedentiaValue SOLLEMNITAS_GENERALIS_3 = 300"
| "PraecedentiaValue SOLLEMNITAS_PROPRIA_PATRONI_4A = 400"
| "PraecedentiaValue SOLLEMNITAS_DEDICATIONIS_4B = 401"
| "PraecedentiaValue SOLLEMNITAS_TITULI_4C = 402"
| "PraecedentiaValue FESTUM_DOMINI_5 = 500"
| "PraecedentiaValue DOMINICA_NATIVITATIS_6 = 600"
| "PraecedentiaValue DOMINICA_ORDINARII_6 = 601"
| "PraecedentiaValue FESTUM_BMV_7 = 700"
| "PraecedentiaValue FESTUM_SANCTORUM_7 = 701"
| "PraecedentiaValue FESTUM_PROPRIUM_8 = 800"
| "PraecedentiaValue FERIA_ADVENTUS_17_24_9 = 900"
| "PraecedentiaValue DIES_OCTAVAE_NATIVITATIS_9 = 901"
| "PraecedentiaValue FERIA_QUADRAGESIMAE_9 = 902"
| "PraecedentiaValue MEMORIA_OBLIGATORIA_10 = 1000"
| "PraecedentiaValue MEMORIA_OBLIGATORIA_PROPRIA_11 = 1100"
| "PraecedentiaValue MEMORIA_AD_LIBITUM_12 = 1200"
| "PraecedentiaValue FERIA_ADVENTUS_13 = 1300"
| "PraecedentiaValue FERIA_NATIVITATIS_13 = 1301"
| "PraecedentiaValue FERIA_PASCHAE_13 = 1302"
| "PraecedentiaValue FERIA_ORDINARII_14 = 1400"

datatype Color = ALBUS | RUBER | VIRIDIS | VIOLACEUS | ROSACEUS | NIGER | AUREUS

datatype Genus = TEMPORALE | SANCTORALE | LOCALE

text \<open>
  The enumeration \<open>Dies\<close> is numeric (0 = Sunday .. 6 = Saturday); a day of the week stays
  an \<open>int\<close>. A lookup in \<open>DiesCodes\<close> outside 0..6 gives \<open>undefined\<close>.
\<close>

definition DiesCodes :: "int \<Rightarrow> string option" where
  "DiesCodes d =
     (if d = 0 then Some ''1DOM''
      else if d = 1 then Some ''2LUN''
      else if d = 2 then Some ''3MAR''
      else if d = 3 then Some ''4MER''
      else if d = 4 then Some ''5IOV''
      else if d = 5 then Some ''6VEN''
      else if d = 6 then Some ''7SAB''
      else None)"

datatype CyclusDominicalis = A | B | C

datatype CyclusFerialis = I | II

fun CyclusDominicalisValue :: "CyclusDominicalis \<Rightarrow> string" where
  "CyclusDominicalisValue A = ''A''"
| "CyclusDominicalisValue B = ''B''"
| "CyclusDominicalisValue C = ''C''"

fun CyclusFerialisValue :: "CyclusFerialis \<Rightarrow> string" where
  "CyclusFerialisValue I = ''I''"
| "CyclusFerialisValue II = ''II''"

text \<open>
  \<open>DiesSpecialis\<close>, a candidate celebration. The field \<open>id\<close> is written \<open>id'\<close>. The
  fields \<open>nomina.la\<close>, \<open>nomina.it\<close>, \<open>nomina.en\<close> are flattened. The function-valued field
  \<open>match\<close> and the cross-reference table \<open>externalIds\<close> are read by no function of
  calendar.ts, computus.ts or fragments.ts and are left out.
\<close>

record DiesSpecialis =
  code :: string
  id' :: string
  shortCode :: string
  genus :: Genus
  gradus :: Gradus
  praecedentia :: Praecedentia
  priority :: int
  colores :: "Color list"
  nomina_la :: string
  nomina_it :: "string option"
  nomina_en :: "string option"
  month :: "int option"
  day :: "int option"
  daysFromEaster :: "int option"

text \<open>
  \<open>DiesLiturgicus\<close>, the resolved day. Its fields carry the prefix \<open>dl_\<close>, since several
  share their names with fields of \<open>DiesSpecialis\<close> or with functions of computus.ts.
\<close>

datatype DiesLiturgicus = DiesLiturgicus
  (dl_date: Date)
  (dl_tempus: Tempus)
  (dl_hebdomada: int)
  (dl_hebdomadaPsalterii: int)
  (dl_dies: int)
  (dl_cyclusDominicalis: CyclusDominicalis)
  (dl_cyclusFerialis: CyclusFerialis)
  (dl_gradus: Gradus)
  (dl_praecedentia: Praecedentia)
  (dl_colores: "Color list")
  (dl_genus: Genus)
  (dl_id: string)
  (dl_shortCode: string)
  (dl_titleCode: string)
  (dl_nomina_la: string)
  (dl_nomina_it: "string option")
  (dl_nomina_en: "string option")
  (dl_commemoratio: "DiesLiturgicus list option")
  (dl_alternativae: "DiesLiturgicus list option")

text \<open>
  The modules temporale.ts and sanctorale.ts (the listings of celebrations and their
  lookup by date) are not among the sources. The three lookups that calendar.ts and
  fragments.ts import from them are parameters of the embedding; each returns one
  candidate or none.
\<close>

record CelebrationSource =
  findTemporale :: "Date \<Rightarrow> DiesSpecialis option"
  findTemporaleCelebration :: "Date \<Rightarrow> DiesSpecialis option"
  findSanctoraleCelebration :: "Date \<Rightarrow> DiesSpecialis option"

section \<open>computus.ts\<close>

definition addDies :: "Date \<Rightarrow> int \<Rightarrow> Date" where
  "addDies date dies = setDate date (getDate date + dies)"

definition proximaDominica :: "Date \<Rightarrow> Date" where
  "proximaDominica date =
     (let dayOfWeek = getDay date
      in if dayOfWeek = 0 then date
         else addDies date (7 - dayOfWeek))"

definition diesInter :: "Date \<Rightarrow> Date \<Rightarrow> int" where
  "diesInter date1 date2 = (getTime date2 - getTime date1) div (24 * 60 * 60 * 1000)"

definition estDominica :: "Date \<Rightarrow> bool" where
  "estDominica date = (getDay date = 0)"

definition diesHebdomadae :: "Date \<Rightarrow> int" where
  "diesHebdomadae date = getDay date"

definition idemDies :: "Date \<Rightarrow> Date \<Rightarrow> bool" where
  "idemDies date1 date2 =
     (getFullYear date1 = getFullYear date2 \<and>
      getMonth date1 = getMonth date2 \<and>
      getDate date1 = getDate date2)"

text \<open>The century parameters \<open>(m, q)\<close> of \<open>computusPaschalis\<close>.\<close>

definition computusParams :: "int \<Rightarrow> int \<times> int" where
  "computusParams annus =
     (if annus \<ge> 1583 \<and> annus \<le> 1699 then (22, 2)
      else if annus \<ge> 1700 \<and> annus \<le> 1799 then (23, 3)
      else if annus \<ge> 1800 \<and> annus \<le> 1899 then (23, 4)
      else if annus \<ge> 1900 \<and> annus \<le> 2099 then (24, 5)
      else if annus \<ge> 2100 \<and> annus \<le> 2199 then (24, 6)
      else if annus \<ge> 2200 \<and> annus \<le> 2299 then (25, 0)
      else if annus \<ge> 2300 \<and> annus \<le> 2399 then (26, 1)
      else if annus \<ge> 2400 \<and> annus \<le> 2499 then (25, 1)
      else (24, 5))"

text \<open>The day count \<open>f\<close> of \<open>computusPaschalis\<close>: Easter is the \<open>f\<close>-th of March.\<close>

definition computusF :: "int \<Rightarrow> int" where
  "computusF annus =
     (let (m, q) = computusParams annus;
          a = jsRem annus 19;
          b = jsRem annus 4;
          c = jsRem annus 7;
          d = jsRem (19 * a + m) 30;
          e = jsRem (2 * b + 4 * c + 6 * d + q) 7
      in 22 + d + e)"

definition computusPaschalis :: "int \<Rightarrow> Date" where
  "computusPaschalis annus =
     (let f = computusF annus
      in if f > 31 then newDate annus 3 (f - 31) else newDate annus 2 f)"

definition pascha :: "int \<Rightarrow> Date" where
  "pascha = computusPaschalis"

definition pentecostes :: "int \<Rightarrow> Date" where
  "pentecostes annus = addDies (pascha annus) 49"

definition ascensio :: "int \<Rightarrow> bool \<Rightarrow> Date" where
  "ascensio annus inDominica =
     (let date = addDies (pascha annus) 39
      in if inDominica then proximaDominica date else date)"

definition trinitas :: "int \<Rightarrow> Date" where
  "trinitas annus = addDies (pascha annus) 56"

definition corpusChristi :: "int \<Rightarrow> bool \<Rightarrow> Date" where
  "corpusChristi annus inDominica =
     (let date = addDies (pascha annus) 60
      in if inDominica then proximaDominica date else date)"

definition corIesu :: "int \<Rightarrow> Date" where
  "corIesu annus = addDies (pascha annus) 68"

definition corImmaculatumBMV :: "int \<Rightarrow> Date" where
  "corImmaculatumBMV annus = addDies (pascha annus) 69"

definition mariaMaterEcclesiae :: "int \<Rightarrow> Date" where
  "mariaMaterEcclesiae annus = addDies (pascha annus) 50"

definition feriaIVCinerum :: "int \<Rightarrow> Date" where
  "feriaIVCinerum annus = addDies (pascha annus) (- 46)"

definition dominicaInPalmis :: "int \<Rightarrow> Date" where
  "dominicaInPalmis annus = addDies (pascha annus) (- 7)"

definition feriaVInCenaDomini :: "int \<Rightarrow> Date" where
  "feriaVInCenaDomini annus = addDies (pascha annus) (- 3)"

definition feriaVIInPassioneDomini :: "int \<Rightarrow> Date" where
  "feriaVIInPassioneDomini annus = addDies (pascha annus) (- 2)"

definition sabbatumSanctum :: "int \<Rightarrow> Date" where
  "sabbatumSanctum annus = addDies (pascha annus) (- 1)"

definition dominicaInOctavaPaschae :: "int \<Rightarrow> Date" where
  "dominicaInOctavaPaschae annus = addDies (pascha annus) 7"

definition dominicaIAdventus :: "int \<Rightarrow> Date" where
  "dominicaIAdventus annus =
     (let natale = newDate annus 11 25;
          diesHebdomadae = getDay natale;
          diesHebdomadae = (if diesHebdomadae = 0 then 7 else diesHebdomadae);
          daysBack = 21 + diesHebdomadae
      in addDies natale (- daysBack))"

definition christusRex :: "int \<Rightarrow> Date" where
  "christusRex annus = addDies (dominicaIAdventus annus) (- 7)"

definition nativitas :: "int \<Rightarrow> Date" where
  "nativitas annus = newDate annus 11 25"

definition sacraFamilia :: "int \<Rightarrow> Date" where
  "sacraFamilia annus =
     (let natale = nativitas annus
      in if getDay natale = 0 then newDate annus 11 30
         else proximaDominica natale)"

definition epiphania :: "int \<Rightarrow> bool \<Rightarrow> Date" where
  "epiphania annus fixedDate =
     (if fixedDate then newDate annus 0 6
      else proximaDominica (newDate annus 0 2))"

text \<open>\<open>baptismaDomini\<close> calls \<open>epiphania(annus)\<close>, that is with \<open>fixedDate = true\<close>.\<close>

definition baptismaDomini :: "int \<Rightarrow> Date" where
  "baptismaDomini annus =
     (let epiphaniaDate = epiphania annus True
      in if getDate epiphaniaDate \<ge> 7 then addDies epiphaniaDate 1
         else proximaDominica (addDies epiphaniaDate 1))"

text \<open>
  The calendar reading of a date, as the helper \<open>formatDate\<close> of the test files prints it:
  year, month (1..12) and day of the month.
\<close>

definition ymd :: "Date \<Rightarrow> int \<times> int \<times> int" where
  "ymd date = (getFullYear date, getMonth date + 1, getDate date)"

definition tempus :: "Date \<Rightarrow> Tempus" where
  "tempus date =
     (let annus = getFullYear date;
          adventus1 = dominicaIAdventus annus;
          natale = nativitas annus
      in if date \<ge> adventus1 \<and> date < natale then ADVENTUS
         else
           let baptisma = baptismaDomini annus
           in if (date \<ge> natale \<or> date < baptisma) \<and> getMonth date = 0 \<and> date < baptisma
              then NATIVITAS
              else if (date \<ge> natale \<or> date < baptisma) \<and> getMonth date = 11 \<and> date \<ge> natale
              then NATIVITAS
              else
                let cinerum = feriaIVCinerum annus;
                    cenaDomini = feriaVInCenaDomini annus
                in if date \<ge> cinerum \<and> date < cenaDomini then QUADRAGESIMA
                   else
                     let paschaDomini = pascha annus
                     in if date \<ge> cenaDomini \<and> date \<le> paschaDomini then TRIDUUM
                        else
                          let pentecostesDate = pentecostes annus
                          in if date > paschaDomini \<and> date \<le> pentecostesDate then PASCHALE
                             else ORDINARIUM)"

definition hebdomadaTemporis :: "Date \<Rightarrow> int" where
  "hebdomadaTemporis date =
     (let annus = getFullYear date;
          currentTempus = tempus date
      in case currentTempus of
           ADVENTUS \<Rightarrow>
             (let adventus1 = dominicaIAdventus annus
              in diesInter adventus1 date div 7 + 1)
         | NATIVITAS \<Rightarrow>
             (let refYear = (if getMonth date \<ge> 11 then annus else annus - 1);
                  nataleRef = nativitas refYear;
                  weeksFromChristmas = diesInter nataleRef date div 7
              in weeksFromChristmas + 1)
         | QUADRAGESIMA \<Rightarrow>
             (let cinerum = feriaIVCinerum annus;
                  daysFromAshWed = diesInter cinerum date
              in if daysFromAshWed < 4 then 0
                 else (daysFromAshWed + 3) div 7)
         | TRIDUUM \<Rightarrow> 0
         | PASCHALE \<Rightarrow>
             (let paschaDomini = pascha annus
              in diesInter paschaDomini date div 7 + 1)
         | ORDINARIUM \<Rightarrow>
             (let baptisma = baptismaDomini annus;
                  cinerum = feriaIVCinerum annus;
                  pentecostesDate = pentecostes annus;
                  adventus1 = dominicaIAdventus annus
              in if date < cinerum then diesInter baptisma date div 7 + 1
                 else
                   let totalWeeksAfterPentecost = diesInter pentecostesDate adventus1 div 7;
                       weeksFromPentecost = diesInter pentecostesDate date div 7
                   in 34 - totalWeeksAfterPentecost + weeksFromPentecost + 1))"

definition hebdomadaPsalterii :: "Date \<Rightarrow> int" where
  "hebdomadaPsalterii date =
     (let week = jsRem (hebdomadaTemporis date) 4
      in if week = 0 then 4 else week)"

definition estNovusAnnusLiturgicus :: "Date \<Rightarrow> bool" where
  "estNovusAnnusLiturgicus date = (date \<ge> dominicaIAdventus (getFullYear date))"

definition cyclusDominicalis :: "Date \<Rightarrow> CyclusDominicalis" where
  "cyclusDominicalis date =
     (let annus = (if estNovusAnnusLiturgicus date then getFullYear date else getFullYear date - 1);
          cyclus = jsRem annus 3
      in if cyclus = 0 then A
         else if cyclus = 1 then B
         else C)"

definition cyclusFerialis :: "Date \<Rightarrow> CyclusFerialis" where
  "cyclusFerialis date =
     (let annus = (if estNovusAnnusLiturgicus date then getFullYear date + 1 else getFullYear date)
      in if jsRem annus 2 = 1 then I else II)"

section \<open>calendar.ts\<close>

text \<open>
  \<open>Array.prototype.sort\<close> with the comparator
  \<open>PraecedentiaValue[a.praecedentia] - PraecedentiaValue[b.praecedentia]\<close> is a stable sort
  by that value.
\<close>

definition findCelebrations :: "CelebrationSource \<Rightarrow> Date \<Rightarrow> DiesSpecialis list" where
  "findCelebrations src date =
     (let celebrations = [];
          temporale = findTemporaleCelebration src date;
          celebrations = (case temporale of Some t \<Rightarrow> celebrations @ [t] | None \<Rightarrow> celebrations);
          sanctorale = findSanctoraleCelebration src date;
          celebrations = (case sanctorale of Some s \<Rightarrow> celebrations @ [s] | None \<Rightarrow> celebrations)
      in sort_key (\<lambda>c. PraecedentiaValue (praecedentia c)) celebrations)"

definition resolvePrecedence :: "CelebrationSource \<Rightarrow> Date \<Rightarrow> DiesSpecialis option" where
  "resolvePrecedence src date =
     (let celebrations = findCelebrations src date
      in case celebrations of c # _ \<Rightarrow> Some c | [] \<Rightarrow> None)"

definition privilegedDays :: "int \<Rightarrow> Date list" where
  "privilegedDays annus =
     [feriaIVCinerum annus,
      dominicaInPalmis annus,
      feriaVInCenaDomini annus,
      feriaVIInPassioneDomini annus,
      sabbatumSanctum annus,
      pascha annus]"

definition canCelebrate :: "DiesSpecialis \<Rightarrow> Date \<Rightarrow> bool" where
  "canCelebrate celebration date =
     (let currentTempus = tempus date;
          annus = getFullYear date
      in if gradus celebration = MEMORIA_AD_LIBITUM \<and>
            (currentTempus = QUADRAGESIMA \<or> currentTempus = ADVENTUS)
         then False
         else if list_ex (\<lambda>d. idemDies d date) (privilegedDays annus)
         then PraecedentiaValue (praecedentia celebration) \<le> 204
         else True)"

definition getDefaultColor :: "Tempus \<Rightarrow> Date \<Rightarrow> Color" where
  "getDefaultColor currentTempus date =
     (let annus = getFullYear date
      in case currentTempus of
           ADVENTUS \<Rightarrow>
             (if estDominica date \<and>
                 (getTime date - getTime (dominicaIAdventus annus)) div (7 * 24 * 60 * 60 * 1000) = 2
              then ROSACEUS else VIOLACEUS)
         | NATIVITAS \<Rightarrow> ALBUS
         | QUADRAGESIMA \<Rightarrow>
             (if estDominica date \<and>
                 (getTime date - getTime (feriaIVCinerum annus)) div (7 * 24 * 60 * 60 * 1000) = 3
              then ROSACEUS else VIOLACEUS)
         | TRIDUUM \<Rightarrow> RUBER
         | PASCHALE \<Rightarrow> ALBUS
         | ORDINARIUM \<Rightarrow> VIRIDIS)"

text \<open>
  \<open>toRoman\<close>: for each pair of the table in turn, the inner \<open>while\<close> loop subtracts the
  value as long as it fits. The loop is \<open>romanLoop\<close>; it terminates because the value is
  positive, which the guard \<open>0 < v\<close> records (every value of the table is).
\<close>

function romanLoop :: "int \<Rightarrow> string \<Rightarrow> int \<Rightarrow> string \<Rightarrow> int \<times> string" where
  "romanLoop v letters num result =
     (if 0 < v \<and> num \<ge> v then romanLoop v letters (num - v) (result @ letters)
      else (num, result))"
  by pat_completeness auto
termination
  by (relation "measure (\<lambda>(v, letters, num, result). nat num)") auto

definition romanNumerals :: "(int \<times> string) list" where
  "romanNumerals = [(40, ''XL''), (10, ''X''), (9, ''IX''), (5, ''V''), (4, ''IV''), (1, ''I'')]"

definition toRoman :: "int \<Rightarrow> string" where
  "toRoman num =
     snd (fold (\<lambda>(v, letters) (num, result). romanLoop v letters num result) romanNumerals (num, []))"

definition nthOpt :: "'a list \<Rightarrow> int \<Rightarrow> 'a option" where
  "nthOpt xs i = (if 0 \<le> i \<and> i < int (length xs) then Some (xs ! nat i) else None)"

definition toOrdinal :: "int \<Rightarrow> string" where
  "toOrdinal num =
     (let suffixes = [''th'', ''st'', ''nd'', ''rd''];
          v = jsRem num 100
      in numToString num @
         (case nthOpt suffixes (jsRem (v - 20) 10) of
            Some s \<Rightarrow> s
          | None \<Rightarrow> (case nthOpt suffixes v of Some s \<Rightarrow> s | None \<Rightarrow> suffixes ! 0)))"

fun getSeasonNameLA :: "Tempus \<Rightarrow> string" where
  "getSeasonNameLA ADVENTUS = ''Adventus''"
| "getSeasonNameLA NATIVITAS = ''Temporis Nativitatis''"
| "getSeasonNameLA QUADRAGESIMA = ''Quadragesimae''"
| "getSeasonNameLA TRIDUUM = ''Tridui Paschalis''"
| "getSeasonNameLA PASCHALE = ''Temporis Paschalis''"
| "getSeasonNameLA ORDINARIUM = ''per Annum''"

fun getSeasonNameEN :: "Tempus \<Rightarrow> string" where
  "getSeasonNameEN ADVENTUS = ''of Advent''"
| "getSeasonNameEN NATIVITAS = ''of the Christmas Season''"
| "getSeasonNameEN QUADRAGESIMA = ''of Lent''"
| "getSeasonNameEN TRIDUUM = ''of the Paschal Triduum''"
| "getSeasonNameEN PASCHALE = ''of Easter''"
| "getSeasonNameEN ORDINARIUM = ''in Ordinary Time''"

definition getDayNameEN :: "int \<Rightarrow> string" where
  "getDayNameEN d =
     (case nthOpt [''Sunday'', ''Monday'', ''Tuesday'', ''Wednesday'', ''Thursday'', ''Friday'',
                   ''Saturday''] d of
        Some n \<Rightarrow> n
      | None \<Rightarrow> [])"

definition getFerial :: "Date \<Rightarrow> DiesSpecialis" where
  "getFerial date =
     (let currentTempus = tempus date;
          week = hebdomadaTemporis date;
          dayOfWeek = diesHebdomadae date;
          praec =
            (case currentTempus of
               TRIDUUM \<Rightarrow> TRIDUUM_1
             | QUADRAGESIMA \<Rightarrow> FERIA_QUADRAGESIMAE_9
             | ADVENTUS \<Rightarrow>
                 (if getMonth date = 11 \<and> getDate date \<ge> 17 then FERIA_ADVENTUS_17_24_9
                  else FERIA_ADVENTUS_13)
             | NATIVITAS \<Rightarrow>
                 (if getMonth date = 11 \<and> getDate date \<ge> 26 \<and> getDate date \<le> 31
                  then DIES_OCTAVAE_NATIVITATIS_9
                  else FERIA_NATIVITATIS_13)
             | PASCHALE \<Rightarrow> FERIA_PASCHAE_13
             | ORDINARIUM \<Rightarrow> FERIA_ORDINARII_14);
          praec =
            (if estDominica date
             then (case currentTempus of
                     ADVENTUS \<Rightarrow> DOMINICA_PRIVILEGIATA_2
                   | QUADRAGESIMA \<Rightarrow> DOMINICA_PRIVILEGIATA_2
                   | PASCHALE \<Rightarrow> DOMINICA_PRIVILEGIATA_2
                   | NATIVITAS \<Rightarrow> DOMINICA_NATIVITATIS_6
                   | TRIDUUM \<Rightarrow> DOMINICA_ORDINARII_6
                   | ORDINARIUM \<Rightarrow> DOMINICA_ORDINARII_6)
             else praec);
          tempusCode = TempusCodes currentTempus
      in \<lparr> code = tempusCode @ padStart2 (numToString week) @ numToString dayOfWeek,
           id' = toLowerCase (TempusValue currentTempus) @ ''/week-'' @ numToString week @ ''/'' @
                 numToString dayOfWeek,
           shortCode = tempusCode @ numToString week,
           genus = TEMPORALE,
           gradus = (if estDominica date then SOLLEMNITAS else FERIA),
           praecedentia = praec,
           priority = PraecedentiaValue praec,
           colores = [getDefaultColor currentTempus date],
           nomina_la =
             (if estDominica date
              then ''Dominica '' @ toRoman week @ '' '' @ getSeasonNameLA currentTempus
              else ''Feria '' @ toRoman (dayOfWeek + 1) @ '' Hebdomadae '' @ toRoman week @ '' '' @
                   getSeasonNameLA currentTempus),
           nomina_it = None,
           nomina_en =
             Some (if estDominica date
                   then toOrdinal week @ '' Sunday '' @ getSeasonNameEN currentTempus
                   else getDayNameEN dayOfWeek @ '' of the '' @ toOrdinal week @ '' Week '' @
                        getSeasonNameEN currentTempus),
           month = None,
           day = None,
           daysFromEaster = None \<rparr>)"

definition buildLiturgicalDay :: "DiesSpecialis \<Rightarrow> Date \<Rightarrow> DiesLiturgicus" where
  "buildLiturgicalDay celebration date =
     (let currentTempus = tempus date;
          week = hebdomadaTemporis date;
          dayOfWeek = diesHebdomadae date
      in DiesLiturgicus date currentTempus week (hebdomadaPsalterii date) dayOfWeek
           (cyclusDominicalis date) (cyclusFerialis date)
           (gradus celebration) (praecedentia celebration) (colores celebration)
           (genus celebration) (id' celebration) (shortCode celebration) []
           (nomina_la celebration) (nomina_it celebration) (nomina_en celebration)
           None None)"

text \<open>
  The three selections of \<open>getDiesLiturgicus\<close>: the primary celebration
  (\<open>allCelebrations[0] || getFerial(date)\<close>), the commemorations and the alternatives.
\<close>

definition primaryCelebration :: "CelebrationSource \<Rightarrow> Date \<Rightarrow> DiesSpecialis" where
  "primaryCelebration src date =
     (case findCelebrations src date of
        c # _ \<Rightarrow> c
      | [] \<Rightarrow> getFerial date)"

definition commemorations :: "CelebrationSource \<Rightarrow> Date \<Rightarrow> DiesSpecialis list" where
  "commemorations src date =
     filter (\<lambda>c. canCelebrate c date \<and> PraecedentiaValue (praecedentia c) < 1200)
       (drop 1 (findCelebrations src date))"

definition alternatives :: "CelebrationSource \<Rightarrow> Date \<Rightarrow> DiesSpecialis list" where
  "alternatives src date =
     filter (\<lambda>c. gradus c = MEMORIA_AD_LIBITUM \<and> canCelebrate c date)
       (findCelebrations src date)"

definition templ :: "string option \<Rightarrow> string" where
  "templ v = (case v of Some s \<Rightarrow> s | None \<Rightarrow> ''undefined'')"

definition getDiesLiturgicus :: "CelebrationSource \<Rightarrow> Date \<Rightarrow> DiesLiturgicus" where
  "getDiesLiturgicus src date =
     (let currentTempus = tempus date;
          week = hebdomadaTemporis date;
          dayOfWeek = diesHebdomadae date;
          cyclusDom = cyclusDominicalis date;
          cyclusFer = cyclusFerialis date;
          psalterWeek = hebdomadaPsalterii date;
          primary = primaryCelebration src date;
          comm = commemorations src date;
          alt = alternatives src date;
          tempusCode = TempusCodes currentTempus;
          weekCode = ''ST'' @ padStart2 (numToString week);
          dayCode = templ (DiesCodes dayOfWeek);
          yearCode = ''Y-'' @ CyclusDominicalisValue cyclusDom @ CyclusFerialisValue cyclusFer;
          titleCode = ''TIT;'' @ tempusCode @ '';'' @ weekCode @ '';'' @ dayCode @ '';'' @ yearCode;
          shortCode' =
            (if shortCode primary \<noteq> [] then shortCode primary
             else toLowerCase tempusCode @ ''/'' @ padStart2 (numToString week) @ ''/'' @
                  numToString dayOfWeek)
      in DiesLiturgicus date currentTempus week psalterWeek dayOfWeek cyclusDom cyclusFer
           (gradus primary) (praecedentia primary) (colores primary) (genus primary)
           (id' primary) shortCode' titleCode
           (nomina_la primary) (nomina_it primary) (nomina_en primary)
           (if length comm > 0 then Some (map (\<lambda>c. buildLiturgicalDay c date) comm) else None)
           (if length alt > 0 then Some (map (\<lambda>c. buildLiturgicalDay c date) alt) else None))"

section \<open>fragments.ts\<close>

fun GradusRank :: "Gradus \<Rightarrow> int" where
  "GradusRank SOLLEMNITAS = 1"
| "GradusRank FESTUM = 2"
| "GradusRank MEMORIA = 3"
| "GradusRank MEMORIA_AD_LIBITUM = 4"
| "GradusRank COMMEMORATIO = 5"
| "GradusRank FERIA = 6"

definition gradusAtLeast :: "Gradus \<Rightarrow> Gradus \<Rightarrow> bool" where
  "gradusAtLeast g threshold = (GradusRank g \<le> GradusRank threshold)"

text \<open>
  \<open>Math.round(x / d)\<close> for an integer \<open>x\<close> and a positive integer \<open>d\<close>: the nearest
  integer, a half rounded up.
\<close>

definition roundDiv :: "int \<Rightarrow> int \<Rightarrow> int" where
  "roundDiv x d = (2 * x + d) div (2 * d)"

definition getSeasonalPraecedentia :: "Date \<Rightarrow> Praecedentia" where
  "getSeasonalPraecedentia date =
     (let currentTempus = tempus date;
          sunday = estDominica date;
          annus = getFullYear date;
          easter = pascha annus;
          daysFromEaster = roundDiv (getTime date - getTime easter) (1000 * 60 * 60 * 24)
      in if daysFromEaster \<ge> 0 \<and> daysFromEaster \<le> 7 then DIES_OCTAVAE_PASCHAE_2
         else if sunday
         then (case currentTempus of
                 ADVENTUS \<Rightarrow> DOMINICA_PRIVILEGIATA_2
               | QUADRAGESIMA \<Rightarrow> DOMINICA_PRIVILEGIATA_2
               | PASCHALE \<Rightarrow> DOMINICA_PRIVILEGIATA_2
               | NATIVITAS \<Rightarrow> DOMINICA_NATIVITATIS_6
               | ORDINARIUM \<Rightarrow> DOMINICA_ORDINARII_6
               | TRIDUUM \<Rightarrow> DOMINICA_ORDINARII_6)
         else (case currentTempus of
                 TRIDUUM \<Rightarrow> TRIDUUM_1
               | QUADRAGESIMA \<Rightarrow>
                   (let ashWed = addDies easter (- 46)
                    in if getTime date = getTime ashWed then FERIA_IV_CINERUM_2
                       else if daysFromEaster \<ge> - 6 \<and> daysFromEaster \<le> - 4
                       then FERIA_HEBDOMADAE_SANCTAE_2
                       else FERIA_QUADRAGESIMAE_9)
               | ADVENTUS \<Rightarrow>
                   (if getMonth date = 11 \<and> getDate date \<ge> 17 \<and> getDate date \<le> 24
                    then FERIA_ADVENTUS_17_24_9
                    else FERIA_ADVENTUS_13)
               | NATIVITAS \<Rightarrow>
                   (if getMonth date = 11 \<and> getDate date \<ge> 26 \<and> getDate date \<le> 31
                    then DIES_OCTAVAE_NATIVITATIS_9
                    else if getMonth date = 0 \<and> getDate date = 1
                    then DIES_OCTAVAE_NATIVITATIS_9
                    else FERIA_NATIVITATIS_13)
               | PASCHALE \<Rightarrow> FERIA_PASCHAE_13
               | ORDINARIUM \<Rightarrow> FERIA_ORDINARII_14))"

definition getTransferDate :: "DiesSpecialis \<Rightarrow> Date \<Rightarrow> Date option" where
  "getTransferDate sanctorale date =
     (let annus = getFullYear date;
          easter = pascha annus;
          daysFromEaster = roundDiv (getTime date - getTime easter) (1000 * 60 * 60 * 24)
      in if id' sanctorale = ''annunciation'' \<and> month sanctorale = Some 3 \<and>
            day sanctorale = Some 25 \<and> daysFromEaster \<ge> - 7 \<and> daysFromEaster \<le> 7
         then Some (addDies easter 8)
         else if id' sanctorale = ''joseph_spouse_of_mary'' \<and> month sanctorale = Some 3 \<and>
            day sanctorale = Some 19 \<and> daysFromEaster \<ge> - 7 \<and> daysFromEaster \<le> 0
         then Some (addDies easter (- 8))
         else None)"

definition hasPrecedence :: "Praecedentia \<Rightarrow> Praecedentia \<Rightarrow> bool" where
  "hasPrecedence a b = (PraecedentiaValue a < PraecedentiaValue b)"

datatype Hora =
    INVITATORIUM
  | OFFICIUM_LECTIONIS
  | LAUDES
  | TERTIA
  | SEXTA
  | NONA
  | VESPERAE
  | COMPLETORIUM
  | MISSA_INTROITUS
  | MISSA_COLLECTA
  | MISSA_LECTIO_I
  | MISSA_PSALMUS
  | MISSA_LECTIO_II
  | MISSA_EVANGELIUM
  | MISSA_SUPER_OBLATA
  | MISSA_PRAEFATIO
  | MISSA_POST_COMMUNIONEM

fun HoraValue :: "Hora \<Rightarrow> string" where
  "HoraValue INVITATORIUM = ''INV''"
| "HoraValue OFFICIUM_LECTIONIS = ''OL''"
| "HoraValue LAUDES = ''LAU''"
| "HoraValue TERTIA = ''TER''"
| "HoraValue SEXTA = ''SEX''"
| "HoraValue NONA = ''NON''"
| "HoraValue VESPERAE = ''VES''"
| "HoraValue COMPLETORIUM = ''COM''"
| "HoraValue MISSA_INTROITUS = ''MIS-INT''"
| "HoraValue MISSA_COLLECTA = ''MIS-COL''"
| "HoraValue MISSA_LECTIO_I = ''MIS-L1''"
| "HoraValue MISSA_PSALMUS = ''MIS-PS''"
| "HoraValue MISSA_LECTIO_II = ''MIS-L2''"
| "HoraValue MISSA_EVANGELIUM = ''MIS-EV''"
| "HoraValue MISSA_SUPER_OBLATA = ''MIS-SO''"
| "HoraValue MISSA_PRAEFATIO = ''MIS-PR''"
| "HoraValue MISSA_POST_COMMUNIONEM = ''MIS-PC''"

record FragmentNames =
  primary :: string
  fallback :: "string option"
  common :: "string option"
  seasonal :: "string option"
  bmdPath :: string
  eprexCode :: string
  lectionary_sunday :: CyclusDominicalis
  lectionary_weekday :: CyclusFerialis

definition getSeasonPath :: "Tempus \<Rightarrow> string" where
  "getSeasonPath t = (if TempusCodes t \<noteq> [] then TempusCodes t else ''ORD'')"

definition getDayPath :: "int \<Rightarrow> string" where
  "getDayPath d = (case DiesCodes d of Some c \<Rightarrow> (if c \<noteq> [] then c else ''1DOM'') | None \<Rightarrow> ''1DOM'')"

definition getCommonType :: "DiesSpecialis \<Rightarrow> string" where
  "getCommonType dies =
     (let i = toLowerCase (id' dies)
      in if stringIncludes i ''mary'' \<or> stringIncludes i ''bmv'' \<or> stringIncludes i ''mariae'' \<or>
            stringIncludes i ''assumption'' \<or> stringIncludes i ''immaculate'' then ''bmv''
         else if stringIncludes i ''apostle'' \<or> stringIncludes i ''apostol'' then ''apostoli''
         else if stringIncludes i ''martyr'' then ''martyres''
         else if stringIncludes i ''bishop'' \<or> stringIncludes i ''pope'' \<or> stringIncludes i ''papa'' \<or>
            stringIncludes i ''episcop'' \<or> stringIncludes i ''doctor'' then ''pastores''
         else if stringIncludes i ''virgin'' then ''virgines''
         else if stringIncludes i ''religious'' \<or> stringIncludes i ''abbot'' \<or>
            stringIncludes i ''abbat'' then ''religiosi''
         else ''sancti'')"

text \<open>The flag \<open>sanctoraleTransferred\<close> of \<open>getFragmentNames\<close>.\<close>

definition sanctoraleTransferred :: "CelebrationSource \<Rightarrow> Date \<Rightarrow> bool" where
  "sanctoraleTransferred src date =
     (case findSanctoraleCelebration src date of
        Some sanctorale \<Rightarrow> (case getTransferDate sanctorale date of Some _ \<Rightarrow> True | None \<Rightarrow> False)
      | None \<Rightarrow> False)"

definition codeOf :: "DiesSpecialis \<Rightarrow> string" where
  "codeOf c = (if shortCode c \<noteq> [] then shortCode c else code c)"

definition getFragmentNames :: "CelebrationSource \<Rightarrow> Date \<Rightarrow> Hora \<Rightarrow> FragmentNames" where
  "getFragmentNames src date hora =
     (let currentTempus = tempus date;
          week = hebdomadaTemporis date;
          dayOfWeek = diesHebdomadae date;
          sunday = estDominica date;
          seasonPath = getSeasonPath currentTempus;
          weekStr = padStart2 (numToString week);
          dayPath = getDayPath dayOfWeek;
          h = HoraValue hora;
          temporale = findTemporale src date;
          sanctorale = findSanctoraleCelebration src date;
          seasonalPraecedentia = getSeasonalPraecedentia date;
          seasonalPath = seasonPath @ ''/'' @ weekStr @ ''/'' @ dayPath @ ''/'' @ h;
          transferred = sanctoraleTransferred src date;
          sundaySeasonal =
            (if sunday then Some (seasonPath @ ''/'' @ weekStr @ ''/dom/'' @ h) else None);
          (primary', fallback', common', seasonal') =
            (case temporale of
               Some t \<Rightarrow>
                 (codeOf t @ ''/'' @ h, Some seasonalPath, None,
                  Some (''commune/'' @ seasonPath @ ''/'' @ h))
             | None \<Rightarrow>
                 (case sanctorale of
                    Some s \<Rightarrow>
                      if \<not> transferred
                      then
                        if hasPrecedence (praecedentia s) seasonalPraecedentia
                        then (codeOf s @ ''/'' @ h,
                              Some (''sancti/'' @ templ (map_option (\<lambda>m. padStart2 (numToString m)) (month s)) @
                                    ''/'' @ templ (map_option (\<lambda>d. padStart2 (numToString d)) (day s)) @
                                    ''/'' @ h),
                              Some (''commune/'' @ getCommonType s @ ''/'' @ h),
                              Some seasonalPath)
                        else if gradusAtLeast (gradus s) MEMORIA
                        then (seasonalPath, Some (codeOf s @ ''/'' @ h),
                              Some (''commune/'' @ getCommonType s @ ''/'' @ h), sundaySeasonal)
                        else (seasonalPath, None, Some (''commune/feria/'' @ h), sundaySeasonal)
                      else (seasonalPath, None, Some (''commune/feria/'' @ h), sundaySeasonal)
                  | None \<Rightarrow> (seasonalPath, None, Some (''commune/feria/'' @ h), sundaySeasonal)));
          cyclusDom = cyclusDominicalis date;
          cyclusFer = cyclusFerialis date;
          cyclus = (if sunday then CyclusDominicalisValue cyclusDom else CyclusFerialisValue cyclusFer);
          bmdPath' = seasonPath @ ''/'' @ weekStr @ ''/'' @ dayPath @ ''/'' @ cyclus @ ''/'' @ h;
          tempusCode = TempusCodes currentTempus;
          daysCode = templ (DiesCodes dayOfWeek);
          eprexCode' = tempusCode @ weekStr @ daysCode @ ''-'' @ h
      in \<lparr> primary = primary', fallback = fallback', common = common', seasonal = seasonal',
           bmdPath = bmdPath', eprexCode = eprexCode',
           lectionary_sunday = cyclusDom, lectionary_weekday = cyclusFer \<rparr>)"

section \<open>index.ts\<close>

text \<open>
  \<open>dies(dateString)\<close> splits the string at \<open>'-'\<close>, converts the three parts to numbers and
  hands \<open>new Date(year, month - 1, day)\<close> to \<open>getDiesLiturgicus\<close>; \<open>diesYMD\<close> is that call
  on the three numbers. A call of the library either returns a value or throws; the
  embedding makes the two outcomes explicit. Neither \<open>dies\<close> nor any function it calls
  has a \<open>throw\<close> statement or a check of its argument.
\<close>

datatype 'a outcome = Returned 'a | Thrown string

definition diesYMD :: "CelebrationSource \<Rightarrow> int \<Rightarrow> int \<Rightarrow> int \<Rightarrow> DiesLiturgicus outcome" where
  "diesYMD src y m d = Returned (getDiesLiturgicus src (newDate y (m - 1) d))"

section \<open>Example candidates\<close>

text \<open>
  Modelled from the spec: the listings of temporale.ts and sanctorale.ts are missing, so
  the concrete inputs of the examples below need candidates of their own. Each candidate
  carries what the specification, fragments.ts and the tests say about the entry: the
  short codes \<open>QUA0\<close>, \<open>QUA6F2\<close>, \<open>TRI2\<close>, \<open>PAS0\<close>, \<open>PAS1F2\<close>, \<open>0317\<close>, \<open>0319\<close>, \<open>0325\<close>,
  the identifiers \<open>ash_wednesday\<close>, \<open>good_friday\<close>, \<open>easter_sunday\<close>, \<open>annunciation\<close> and
  \<open>joseph_spouse_of_mary\<close>, the offsets from Easter, and the ranks: Holy Week Monday has
  precedence 2, St Joseph and the Annunciation are solemnities of precedence 3, St Patrick
  is an optional memorial, St Mark a feast. The remaining fields (codes, other
  identifiers, Latin names, colours) are filled in from the General Roman Calendar.
\<close>

definition ashWednesday :: DiesSpecialis where
  "ashWednesday =
     \<lparr> code = ''QUA0'', id' = ''ash_wednesday'', shortCode = ''QUA0'', genus = TEMPORALE,
       gradus = FERIA, praecedentia = FERIA_IV_CINERUM_2, priority = 202,
       colores = [VIOLACEUS], nomina_la = ''Feria IV Cinerum'', nomina_it = None,
       nomina_en = Some ''Ash Wednesday'', month = None, day = None,
       daysFromEaster = Some (- 46) \<rparr>"

definition holyMonday :: DiesSpecialis where
  "holyMonday =
     \<lparr> code = ''QUA6F2'', id' = ''monday_of_holy_week'', shortCode = ''QUA6F2'', genus = TEMPORALE,
       gradus = FERIA, praecedentia = FERIA_HEBDOMADAE_SANCTAE_2, priority = 203,
       colores = [VIOLACEUS], nomina_la = ''Feria II Hebdomadae Sanctae'', nomina_it = None,
       nomina_en = Some ''Monday of Holy Week'', month = None, day = None,
       daysFromEaster = Some (- 6) \<rparr>"

definition goodFriday :: DiesSpecialis where
  "goodFriday =
     \<lparr> code = ''TRI2'', id' = ''good_friday'', shortCode = ''TRI2'', genus = TEMPORALE,
       gradus = SOLLEMNITAS, praecedentia = TRIDUUM_1, priority = 100,
       colores = [RUBER], nomina_la = ''Feria VI in Passione Domini'', nomina_it = None,
       nomina_en = Some ''Good Friday'', month = None, day = None,
       daysFromEaster = Some (- 2) \<rparr>"

definition easterSunday :: DiesSpecialis where
  "easterSunday =
     \<lparr> code = ''PAS0'', id' = ''easter_sunday'', shortCode = ''PAS0'', genus = TEMPORALE,
       gradus = SOLLEMNITAS, praecedentia = TRIDUUM_1, priority = 100,
       colores = [ALBUS], nomina_la = ''Dominica Paschae in Resurrectione Domini'',
       nomina_it = None, nomina_en = Some ''Easter Sunday'', month = None, day = None,
       daysFromEaster = Some 0 \<rparr>"

definition easterMonday :: DiesSpecialis where
  "easterMonday =
     \<lparr> code = ''PAS1F2'', id' = ''monday_of_easter_octave'', shortCode = ''PAS1F2'',
       genus = TEMPORALE, gradus = SOLLEMNITAS, praecedentia = DIES_OCTAVAE_PASCHAE_2,
       priority = 204, colores = [ALBUS], nomina_la = ''Feria II infra octavam Paschae'',
       nomina_it = None, nomina_en = Some ''Monday within the Octave of Easter'',
       month = None, day = None, daysFromEaster = Some 1 \<rparr>"

definition stPatrick :: DiesSpecialis where
  "stPatrick =
     \<lparr> code = ''0317'', id' = ''patrick_bishop'', shortCode = ''0317'', genus = SANCTORALE,
       gradus = MEMORIA_AD_LIBITUM, praecedentia = MEMORIA_AD_LIBITUM_12, priority = 1200,
       colores = [ALBUS], nomina_la = ''S. Patricii, episcopi'', nomina_it = None,
       nomina_en = Some ''Saint Patrick, Bishop'', month = Some 3, day = Some 17,
       daysFromEaster = None \<rparr>"

definition stJoseph :: DiesSpecialis where
  "stJoseph =
     \<lparr> code = ''0319'', id' = ''joseph_spouse_of_mary'', shortCode = ''0319'', genus = SANCTORALE,
       gradus = SOLLEMNITAS, praecedentia = SOLLEMNITAS_GENERALIS_3, priority = 300,
       colores = [ALBUS], nomina_la = ''S. Ioseph, Sponsi Beatae Mariae Virginis'',
       nomina_it = None, nomina_en = Some ''Saint Joseph, Spouse of the Blessed Virgin Mary'',
       month = Some 3, day = Some 19, daysFromEaster = None \<rparr>"

definition annunciation :: DiesSpecialis where
  "annunciation =
     \<lparr> code = ''0325'', id' = ''annunciation'', shortCode = ''0325'', genus = SANCTORALE,
       gradus = SOLLEMNITAS, praecedentia = SOLLEMNITAS_GENERALIS_3, priority = 300,
       colores = [ALBUS], nomina_la = ''In Annuntiatione Domini'', nomina_it = None,
       nomina_en = Some ''The Annunciation of the Lord'', month = Some 3, day = Some 25,
       daysFromEaster = None \<rparr>"

definition stMark :: DiesSpecialis where
  "stMark =
     \<lparr> code = ''0425'', id' = ''mark_evangelist'', shortCode = ''0425'', genus = SANCTORALE,
       gradus = FESTUM, praecedentia = FESTUM_SANCTORUM_7, priority = 701,
       colores = [RUBER], nomina_la = ''S. Marci, evangelistae'', nomina_it = None,
       nomina_en = Some ''Saint Mark, Evangelist'', month = Some 4, day = Some 25,
       daysFromEaster = None \<rparr>"

text \<open>
  Modelled from the spec: a data source over these candidates. A Temporale candidate
  matches a date by its offset from the Easter of the date's year, a Sanctorale candidate
  by its month and day; each lookup returns the first match.
\<close>

definition exampleTemporale :: "Date \<Rightarrow> DiesSpecialis option" where
  "exampleTemporale date =
     find (\<lambda>c. daysFromEaster c =
                  Some (roundDiv (getTime date - getTime (pascha (getFullYear date))) msPerDay))
       [ashWednesday, holyMonday, goodFriday, easterSunday, easterMonday]"

definition exampleSanctorale :: "Date \<Rightarrow> DiesSpecialis option" where
  "exampleSanctorale date =
     find (\<lambda>c. month c = Some (getMonth date + 1) \<and> day c = Some (getDate date))
       [stPatrick, stJoseph, annunciation, stMark]"

definition exampleSource :: CelebrationSource where
  "exampleSource =
     \<lparr> findTemporale = exampleTemporale,
       findTemporaleCelebration = exampleTemporale,
       findSanctoraleCelebration = exampleSanctorale \<rparr>"

section \<open>Properties of the date arithmetic\<close>

lemma div_succ: "0 < c \<Longrightarrow> (a + 1) div c = a div c + (if (a + 1) mod c = 0 then 1 else 0)" for a c :: int
proof -
  assume c: "0 < c"
  define q where "q = a div c"
  define r where "r = a mod c"
  have a: "a = c * q + r" by (simp add: q_def r_def)
  have r: "0 \<le> r" "r < c" using c by (simp_all add: r_def)
  show ?thesis
  proof (cases "r + 1 = c")
    case True
    then have "a + 1 = c * (q + 1)" using a by (simp add: algebra_simps)
    then have "(a + 1) div c = q + 1" "(a + 1) mod c = 0" using c by simp_all
    then show ?thesis by (simp add: q_def)
  next
    case False
    then have s: "0 \<le> r + 1" "r + 1 < c" using r by simp_all
    have e: "a + 1 = c * q + (r + 1)" using a by simp
    have "(a + 1) div c = q + (r + 1) div c" unfolding e using c by simp
    then have d: "(a + 1) div c = q" using s by simp
    have "(a + 1) mod c = (r + 1) mod c" unfolding e by simp
    then have "(a + 1) mod c = r + 1" using s by simp
    then have "(a + 1) mod c \<noteq> 0" using r by simp
    then show ?thesis using d by (simp add: q_def)
  qed
qed

lemma mod_shift4: "(y - 1968) mod 4 = y mod 4" for y :: int
  by algebra
lemma mod_shift100: "(y - 1900) mod 100 = y mod 100" for y :: int
  by algebra
lemma mod_shift400: "(y - 1600) mod 400 = y mod 400" for y :: int
  by algebra

lemma DayFromYear_Suc: "DayFromYear (y + 1) = DayFromYear y + DaysInYear y"
proof -
  have a: "(y + 1 - 1969) div 4 = (y - 1969) div 4 + (if y mod 4 = 0 then 1 else 0)"
    using div_succ [of 4 "y - 1969"] mod_shift4 [of y] by (simp add: algebra_simps)
  have b: "(y + 1 - 1901) div 100 = (y - 1901) div 100 + (if y mod 100 = 0 then 1 else 0)"
    using div_succ [of 100 "y - 1901"] mod_shift100 [of y] by (simp add: algebra_simps)
  have c: "(y + 1 - 1601) div 400 = (y - 1601) div 400 + (if y mod 400 = 0 then 1 else 0)"
    using div_succ [of 400 "y - 1601"] mod_shift400 [of y] by (simp add: algebra_simps)
  have d4: "y mod 100 = 0 \<Longrightarrow> y mod 4 = 0"
    using dvd_trans [of 4 100 y] by (simp add: mod_eq_0_iff_dvd)
  have d100: "y mod 400 = 0 \<Longrightarrow> y mod 100 = 0"
    using dvd_trans [of 100 400 y] by (simp add: mod_eq_0_iff_dvd)
  show ?thesis
    unfolding DayFromYear_def DaysInYear_def a b c using d4 d100 by auto
qed

lemma DaysInYear_bounds: "365 \<le> DaysInYear y \<and> DaysInYear y \<le> 366"
  by (simp add: DaysInYear_def)

lemma divb: "0 < c \<Longrightarrow> c * (a div c) \<le> a \<and> a < c * (a div c) + c" for a c :: int
proof -
  assume c: "0 < c"
  have "a = c * (a div c) + a mod c" by simp
  moreover have "0 \<le> a mod c" "a mod c < c" using c by simp_all
  ultimately show ?thesis by linarith
qed

lemma DayFromYear_approx:
  "400 * DayFromYear y \<le> 146097 * (y - 1970) + 589"
  "146097 * (y - 1970) - 506 \<le> 400 * DayFromYear y"
proof -
  define q4 where "q4 = (y - 1969) div 4"
  define q100 where "q100 = (y - 1901) div 100"
  define q400 where "q400 = (y - 1601) div 400"
  have a: "4 * q4 \<le> y - 1969" "y - 1969 < 4 * q4 + 4"
    using divb [of 4 "y - 1969"] by (simp_all add: q4_def)
  have b: "100 * q100 \<le> y - 1901" "y - 1901 < 100 * q100 + 100"
    using divb [of 100 "y - 1901"] by (simp_all add: q100_def)
  have c: "400 * q400 \<le> y - 1601" "y - 1601 < 400 * q400 + 400"
    using divb [of 400 "y - 1601"] by (simp_all add: q400_def)
  have d: "DayFromYear y = 365 * (y - 1970) + q4 - q100 + q400"
    by (simp add: DayFromYear_def q4_def q100_def q400_def)
  show "400 * DayFromYear y \<le> 146097 * (y - 1970) + 589"
    unfolding d using a b c by (simp add: algebra_simps)
  show "146097 * (y - 1970) - 506 \<le> 400 * DayFromYear y"
    unfolding d using a b c by (simp add: algebra_simps)
qed

lemma DayFromYear_less: "y < z \<Longrightarrow> DayFromYear y < DayFromYear z"
proof (induction z rule: int_gr_induct)
  case base
  then show ?case using DayFromYear_Suc [of y] DaysInYear_bounds [of y] by simp
next
  case (step i)
  then show ?case using DayFromYear_Suc [of i] DaysInYear_bounds [of i] by simp
qed

lemma DayFromYear_mono: "y \<le> z \<Longrightarrow> DayFromYear y \<le> DayFromYear z"
  using DayFromYear_less [of y z] by (cases "y = z") auto

lemma YearFromDay_est:
  assumes "e = 1970 + (400 * n) div 146097"
  shows "DayFromYear (e - 1) \<le> n" "n < DayFromYear (e + 2)"
proof -
  have e: "146097 * (e - 1970) \<le> 400 * n" "400 * n < 146097 * (e - 1970) + 146097"
    using divb [of 146097 "400 * n"] by (simp_all add: assms)
  show "DayFromYear (e - 1) \<le> n"
    using e DayFromYear_approx [of "e - 1"] by (simp add: algebra_simps)
  show "n < DayFromYear (e + 2)"
    using e DayFromYear_approx [of "e + 2"] by (simp add: algebra_simps)
qed

lemma YearFromDay_bracket:
  "DayFromYear (YearFromDay n) \<le> n \<and> n < DayFromYear (YearFromDay n + 1)"
proof -
  define e where "e = 1970 + (400 * n) div 146097"
  have lo: "DayFromYear (e - 1) \<le> n" and hi: "n < DayFromYear (e + 2)"
    using YearFromDay_est [OF e_def] by simp_all
  have s: "e - 1 + 1 = e" "e + 1 + 1 = e + 2" by simp_all
  consider "n < DayFromYear e" | "DayFromYear e \<le> n" "DayFromYear (e + 1) \<le> n"
    | "DayFromYear e \<le> n" "n < DayFromYear (e + 1)" by linarith
  then show ?thesis
  proof cases
    case 1
    then have "YearFromDay n = e - 1" by (simp add: YearFromDay_def e_def Let_def)
    moreover have "n < DayFromYear (e - 1 + 1)" using 1 by (simp only: s)
    ultimately show ?thesis using lo by simp
  next
    case 2
    then have "YearFromDay n = e + 1" by (simp add: YearFromDay_def e_def Let_def)
    moreover have "n < DayFromYear (e + 1 + 1)" using hi by (simp only: s)
    ultimately show ?thesis using 2 by simp
  next
    case 3
    then have "YearFromDay n = e" by (simp add: YearFromDay_def e_def Let_def)
    then show ?thesis using 3 by simp
  qed
qed

lemma YearFromDay_unique:
  assumes "DayFromYear y \<le> n" "n < DayFromYear (y + 1)"
  shows "YearFromDay n = y"
proof -
  define z where "z = YearFromDay n"
  have z: "DayFromYear z \<le> n" "n < DayFromYear (z + 1)"
    using YearFromDay_bracket [of n] by (simp_all add: z_def)
  have "\<not> z < y"
  proof
    assume "z < y"
    then have "DayFromYear (z + 1) \<le> DayFromYear y" by (intro DayFromYear_mono) simp
    then show False using z assms by linarith
  qed
  moreover have "\<not> y < z"
  proof
    assume "y < z"
    then have "DayFromYear (y + 1) \<le> DayFromYear z" by (intro DayFromYear_mono) simp
    then show False using z assms by linarith
  qed
  ultimately show ?thesis by (simp add: z_def)
qed

lemma Day_mult [simp]: "Day (n * msPerDay) = n"
  by (simp add: Day_def msPerDay_def)

lemma TimeWithinDay_mult [simp]: "TimeWithinDay (n * msPerDay) = 0"
  by (simp add: TimeWithinDay_def msPerDay_def)

lemma Day_add: "Day (t + n * msPerDay) = Day t + n"
  by (simp add: Day_def msPerDay_def)

lemma TimeWithinDay_add: "TimeWithinDay (t + n * msPerDay) = TimeWithinDay t"
  by (simp add: TimeWithinDay_def msPerDay_def)

lemma Day_TimeWithinDay: "Day t * msPerDay + TimeWithinDay t = t"
  by (simp add: Day_def TimeWithinDay_def)

lemma Day_mono: "s \<le> t \<Longrightarrow> Day s \<le> Day t"
  by (simp add: Day_def msPerDay_def zdiv_mono1)

lemma DayWithinYear_bounds:
  "0 \<le> DayWithinYear t \<and> DayWithinYear t < DaysInYear (YearFromTime t)"
  using YearFromDay_bracket [of "Day t"] DayFromYear_Suc [of "YearFromDay (Day t)"]
  by (simp add: DayWithinYear_def YearFromTime_def)

lemma MonthFromTime_range: "0 \<le> MonthFromTime t \<and> MonthFromTime t \<le> 11"
  by (simp add: MonthFromTime_def Let_def)

lemma DayFromMonth_DateFromTime:
  "DayFromMonth (MonthFromTime t) (InLeapYear t) + DateFromTime t - 1 = DayWithinYear t"
  by (simp add: DayFromMonth_def DateFromTime_def MonthFromTime_def Let_def)

lemma MakeDay_month: "0 \<le> m \<Longrightarrow> m \<le> 11 \<Longrightarrow>
  MakeDay y m d = DayFromYear y + DayFromMonth m (if DaysInYear y = 366 then 1 else 0) + d - 1"
  by (simp add: MakeDay_def Let_def)

lemma MakeDay_FromTime:
  "MakeDay (YearFromTime t) (MonthFromTime t) d = Day t - DateFromTime t + d"
proof -
  have "MakeDay (YearFromTime t) (MonthFromTime t) d =
      DayFromYear (YearFromTime t) + DayFromMonth (MonthFromTime t) (InLeapYear t) + d - 1"
    using MonthFromTime_range [of t] by (simp add: MakeDay_month InLeapYear_def)
  then show ?thesis
    using DayFromMonth_DateFromTime [of t] by (simp add: DayWithinYear_def)
qed

lemma setDate_eq: "setDate t d = t + (d - DateFromTime t) * msPerDay"
proof -
  have "setDate t d = (Day t - DateFromTime t + d) * msPerDay + TimeWithinDay t"
    by (simp add: setDate_def MakeDay_FromTime)
  also have "\<dots> = (Day t * msPerDay + TimeWithinDay t) + (d - DateFromTime t) * msPerDay"
    by (simp add: algebra_simps)
  finally show ?thesis by (simp add: Day_TimeWithinDay)
qed

lemma addDies_eq: "addDies t n = t + n * msPerDay"
  by (simp add: addDies_def setDate_eq getDate_def)

lemma getDay_add: "getDay (t + n * msPerDay) = (getDay t + n) mod 7"
proof -
  have "getDay (t + n * msPerDay) = (Day t + n + 4) mod 7"
    by (simp add: getDay_def WeekDay_def Day_add)
  also have "\<dots> = ((Day t + 4) mod 7 + n) mod 7"
    by (simp add: mod_simps algebra_simps)
  finally show ?thesis by (simp add: getDay_def WeekDay_def)
qed

lemma getDay_range: "0 \<le> getDay t \<and> getDay t \<le> 6"
  by (simp add: getDay_def WeekDay_def)

lemma idemDies_iff: "idemDies a b \<longleftrightarrow> Day a = Day b"
proof
  assume "idemDies a b"
  then have "MakeDay (YearFromTime a) (MonthFromTime a) (DateFromTime a) =
      MakeDay (YearFromTime b) (MonthFromTime b) (DateFromTime b)"
    by (simp add: idemDies_def getFullYear_def getMonth_def getDate_def)
  then show "Day a = Day b" by (simp add: MakeDay_FromTime)
next
  assume "Day a = Day b"
  then show "idemDies a b"
    by (simp add: idemDies_def getFullYear_def getMonth_def getDate_def YearFromTime_def
        MonthFromTime_def DateFromTime_def DayWithinYear_def InLeapYear_def)
qed

lemma jsRem_nonneg: "0 \<le> a \<Longrightarrow> 0 < b \<Longrightarrow> jsRem a b = a mod b"
  by (cases "a = 0") (simp_all add: jsRem_def)

lemma computusParams_range:
  "22 \<le> fst (computusParams y) \<and> fst (computusParams y) \<le> 26 \<and>
   0 \<le> snd (computusParams y) \<and> snd (computusParams y) \<le> 6"
  by (simp add: computusParams_def)

lemma computusF_range: "0 \<le> y \<Longrightarrow> 22 \<le> computusF y \<and> computusF y \<le> 57"
proof -
  assume y: "0 \<le> y"
  obtain m q where mq: "computusParams y = (m, q)" by (cases "computusParams y")
  have r: "22 \<le> m" "0 \<le> q" using computusParams_range [of y] mq by simp_all
  have a: "jsRem y 19 = y mod 19" "jsRem y 4 = y mod 4" "jsRem y 7 = y mod 7"
    using y by (simp_all add: jsRem_nonneg)
  have d: "jsRem (19 * (y mod 19) + m) 30 = (19 * (y mod 19) + m) mod 30"
    using r by (intro jsRem_nonneg) simp_all
  have e: "jsRem (2 * (y mod 4) + 4 * (y mod 7) + 6 * ((19 * (y mod 19) + m) mod 30) + q) 7 =
      (2 * (y mod 4) + 4 * (y mod 7) + 6 * ((19 * (y mod 19) + m) mod 30) + q) mod 7"
    using r by (intro jsRem_nonneg) simp_all
  have f: "computusF y = 22 + (19 * (y mod 19) + m) mod 30 +
      (2 * (y mod 4) + 4 * (y mod 7) + 6 * ((19 * (y mod 19) + m) mod 30) + q) mod 7"
    by (simp add: computusF_def mq a d e Let_def)
  have b1: "0 \<le> (19 * (y mod 19) + m) mod 30" "(19 * (y mod 19) + m) mod 30 < 30" by simp_all
  have b2: "0 \<le> (2 * (y mod 4) + 4 * (y mod 7) + 6 * ((19 * (y mod 19) + m) mod 30) + q) mod 7"
    "(2 * (y mod 4) + 4 * (y mod 7) + 6 * ((19 * (y mod 19) + m) mod 30) + q) mod 7 < 7" by simp_all
  show ?thesis unfolding f using b1 b2 by linarith
qed

text \<open>The year that \<open>new Date(year, ...)\<close> builds its date in.\<close>

lemma newDate_month: "0 \<le> m \<Longrightarrow> m \<le> 11 \<Longrightarrow>
  newDate y m d = (DayFromYear (if 0 \<le> y \<and> y \<le> 99 then 1900 + y else y) +
     DayFromMonth m (if DaysInYear (if 0 \<le> y \<and> y \<le> 99 then 1900 + y else y) = 366 then 1 else 0) +
     d - 1) * msPerDay"
  by (simp add: newDate_def MakeDay_month Let_def)

lemma pascha_eq:
  "pascha y = (DayFromYear (if 0 \<le> y \<and> y \<le> 99 then 1900 + y else y) + 58 +
     (if DaysInYear (if 0 \<le> y \<and> y \<le> 99 then 1900 + y else y) = 366 then 1 else 0) +
     computusF y) * msPerDay"
  by (simp add: pascha_def computusPaschalis_def Let_def newDate_month DayFromMonth_def)

section \<open>Properties of the milestones of a year\<close>

lemma getFullYear_unique:
  "DayFromYear y * msPerDay \<le> t \<Longrightarrow> t < DayFromYear (y + 1) * msPerDay \<Longrightarrow> getFullYear t = y"
proof -
  assume a: "DayFromYear y * msPerDay \<le> t" and b: "t < DayFromYear (y + 1) * msPerDay"
  have "DayFromYear y \<le> Day t" using Day_mono [OF a] by simp
  moreover have "Day t < DayFromYear (y + 1)"
  proof (rule ccontr)
    assume "\<not> Day t < DayFromYear (y + 1)"
    then have "DayFromYear (y + 1) * msPerDay \<le> Day t * msPerDay" by (simp add: msPerDay_def)
    also have "\<dots> \<le> t" using Day_TimeWithinDay [of t] by (simp add: TimeWithinDay_def msPerDay_def)
    finally show False using b by simp
  qed
  ultimately show ?thesis by (simp add: getFullYear_def YearFromTime_def YearFromDay_unique)
qed

lemma proximaDominica_bounds:
  "date \<le> proximaDominica date \<and> proximaDominica date \<le> date + 6 * msPerDay"
  using getDay_range [of date]
  by (simp add: proximaDominica_def Let_def addDies_eq msPerDay_def)

lemma pascha_100:
  "100 \<le> y \<Longrightarrow> pascha y =
     (DayFromYear y + 58 + (if DaysInYear y = 366 then 1 else 0) + computusF y) * msPerDay"
  by (simp add: pascha_eq)

lemma pascha_bounds:
  assumes "100 \<le> y"
  shows "(DayFromYear y + 80) * msPerDay \<le> pascha y" "pascha y \<le> (DayFromYear y + 116) * msPerDay"
  using computusF_range [of y] assms by (simp_all add: pascha_100 msPerDay_def)

lemma nativitas_100:
  "100 \<le> y \<Longrightarrow> nativitas y = (DayFromYear y + 358 + (if DaysInYear y = 366 then 1 else 0)) * msPerDay"
  by (simp add: nativitas_def newDate_month DayFromMonth_def)

lemma dominicaIAdventus_bounds:
  assumes "100 \<le> y"
  shows "(DayFromYear y + 330) * msPerDay \<le> dominicaIAdventus y" "dominicaIAdventus y < nativitas y"
proof -
  define n where "n = newDate y 11 25"
  define w where "w = (if getDay n = 0 then 7 else getDay n)"
  have n: "n = nativitas y" by (simp add: n_def nativitas_def)
  have w: "1 \<le> w" "w \<le> 7" using getDay_range [of n] by (simp_all add: w_def)
  have a: "dominicaIAdventus y = n + (- (21 + w)) * msPerDay"
    unfolding dominicaIAdventus_def Let_def addDies_eq n_def [symmetric] w_def [symmetric] ..
  have b: "(DayFromYear y + 358) * msPerDay \<le> n"
    unfolding n nativitas_100 [OF assms] by (simp add: msPerDay_def)
  show "(DayFromYear y + 330) * msPerDay \<le> dominicaIAdventus y"
    unfolding a using w b by (simp add: msPerDay_def)
  show "dominicaIAdventus y < nativitas y"
    unfolding a n [symmetric] using w by (simp add: msPerDay_def)
qed

lemma baptismaDomini_bound:
  assumes "100 \<le> y"
  shows "baptismaDomini y \<le> (DayFromYear y + 12) * msPerDay"
proof -
  have e: "epiphania y True = (DayFromYear y + 5) * msPerDay"
    using assms by (simp add: epiphania_def newDate_month DayFromMonth_def)
  have "proximaDominica (addDies (epiphania y True) 1) \<le> addDies (epiphania y True) 1 + 6 * msPerDay"
    using proximaDominica_bounds by simp
  then show ?thesis
    unfolding baptismaDomini_def Let_def e addDies_eq by (simp add: msPerDay_def)
qed

lemma tempus_paschal_span:
  assumes y: "100 \<le> y" and lo: "feriaIVCinerum y \<le> d" and hi: "d \<le> pentecostes y"
  shows "getFullYear d = y"
    and "tempus d =
      (if d < feriaVInCenaDomini y then QUADRAGESIMA
       else if d \<le> pascha y then TRIDUUM
       else PASCHALE)"
proof -
  have c: "feriaIVCinerum y = pascha y - 46 * msPerDay" "pentecostes y = pascha y + 49 * msPerDay"
    by (simp_all add: feriaIVCinerum_def pentecostes_def addDies_eq)
  have d1: "(DayFromYear y + 34) * msPerDay \<le> d"
    using lo pascha_bounds(1) [OF y] unfolding c by (simp add: msPerDay_def)
  have d2: "d \<le> (DayFromYear y + 165) * msPerDay"
    using hi pascha_bounds(2) [OF y] unfolding c by (simp add: msPerDay_def)
  have "DayFromYear y * msPerDay \<le> d" using d1 by (simp add: msPerDay_def)
  moreover have "d < DayFromYear (y + 1) * msPerDay"
    using d2 DaysInYear_bounds [of y] by (simp add: DayFromYear_Suc msPerDay_def)
  ultimately show yr: "getFullYear d = y" by (rule getFullYear_unique)
  have adv: "\<not> d \<ge> dominicaIAdventus y"
    using d2 dominicaIAdventus_bounds(1) [OF y] by (simp add: msPerDay_def)
  have nat: "\<not> d \<ge> nativitas y"
    using adv dominicaIAdventus_bounds(2) [OF y] by simp
  have bap: "\<not> d < baptismaDomini y"
    using d1 baptismaDomini_bound [OF y] by (simp add: msPerDay_def)
  have cena: "feriaVInCenaDomini y \<le> pascha y"
    by (simp add: feriaVInCenaDomini_def addDies_eq msPerDay_def)
  show "tempus d =
      (if d < feriaVInCenaDomini y then QUADRAGESIMA
       else if d \<le> pascha y then TRIDUUM
       else PASCHALE)"
    unfolding tempus_def Let_def yr using adv nat bap lo hi cena by auto
qed

section \<open>Properties of the Easter computation\<close>

lemma div_eqI: "0 < c \<Longrightarrow> c * q \<le> a \<Longrightarrow> a < c * q + c \<Longrightarrow> a div c = q" for a c q :: int
proof -
  assume c: "0 < c" and l: "c * q \<le> a" and u: "a < c * q + c"
  have "a = c * q + (a - c * q)" by simp
  then have "a div c = q + (a - c * q) div c"
    using c by (metis div_mult_self2 less_irrefl add.commute)
  moreover have "(a - c * q) div c = 0" using l u by (simp add: div_pos_pos_trivial)
  ultimately show ?thesis by simp
qed

lemma century_shift:
  assumes "1583 \<le> y" "y \<le> 2499"
  shows "(snd (computusParams y) - (y div 100 - y div 400) - 4) mod 7 = 0"
proof -
  consider "y \<le> 1599" | "1600 \<le> y" "y \<le> 1699" | "1700 \<le> y" "y \<le> 1799"
    | "1800 \<le> y" "y \<le> 1899" | "1900 \<le> y" "y \<le> 1999" | "2000 \<le> y" "y \<le> 2099"
    | "2100 \<le> y" "y \<le> 2199" | "2200 \<le> y" "y \<le> 2299" | "2300 \<le> y" "y \<le> 2399"
    | "2400 \<le> y"
    by linarith
  then show ?thesis
  proof cases
    case 1
    have "y div 100 = 15" "y div 400 = 3" using 1 assms by (simp_all add: div_eqI)
    then show ?thesis using 1 assms by (simp add: computusParams_def)
  next
    case 2
    have "y div 100 = 16" "y div 400 = 4" using 2 by (simp_all add: div_eqI)
    then show ?thesis using 2 by (simp add: computusParams_def)
  next
    case 3
    have "y div 100 = 17" "y div 400 = 4" using 3 by (simp_all add: div_eqI)
    then show ?thesis using 3 by (simp add: computusParams_def)
  next
    case 4
    have "y div 100 = 18" "y div 400 = 4" using 4 by (simp_all add: div_eqI)
    then show ?thesis using 4 by (simp add: computusParams_def)
  next
    case 5
    have "y div 100 = 19" "y div 400 = 4" using 5 by (simp_all add: div_eqI)
    then show ?thesis using 5 by (simp add: computusParams_def)
  next
    case 6
    have "y div 100 = 20" "y div 400 = 5" using 6 by (simp_all add: div_eqI)
    then show ?thesis using 6 by (simp add: computusParams_def)
  next
    case 7
    have "y div 100 = 21" "y div 400 = 5" using 7 by (simp_all add: div_eqI)
    then show ?thesis using 7 by (simp add: computusParams_def)
  next
    case 8
    have "y div 100 = 22" "y div 400 = 5" using 8 by (simp_all add: div_eqI)
    then show ?thesis using 8 by (simp add: computusParams_def)
  next
    case 9
    have "y div 100 = 23" "y div 400 = 5" using 9 by (simp_all add: div_eqI)
    then show ?thesis using 9 by (simp add: computusParams_def)
  next
    case 10
    have "y div 100 = 24" "y div 400 = 6" using 10 assms by (simp_all add: div_eqI)
    then show ?thesis using 10 assms by (simp add: computusParams_def)
  qed
qed

text \<open>The days from the epoch to the end of February of year \<open>y\<close>, up to a constant.\<close>

lemma DayFromYear_leap:
  "DayFromYear y + (if DaysInYear y = 366 then 1 else 0) =
     365 * (y - 1970) + y div 4 - y div 100 + y div 400 - 477"
proof -
  have a: "(y - 1969) div 4 + (if y mod 4 = 0 then 1 else 0) = y div 4 - 492"
  proof -
    have "(y - 1969 + 1) div 4 = (y - 1969) div 4 + (if (y - 1969 + 1) mod 4 = 0 then 1 else 0)"
      by (rule div_succ) simp
    moreover have "y - 1969 + 1 = y - 1968" by simp
    moreover have "(y - 1968) div 4 = y div 4 - 492"
      using div_mult_self1 [of 4 y "- 492"] by simp
    ultimately show ?thesis using mod_shift4 [of y] by simp
  qed
  have b: "(y - 1901) div 100 + (if y mod 100 = 0 then 1 else 0) = y div 100 - 19"
  proof -
    have "(y - 1901 + 1) div 100 = (y - 1901) div 100 + (if (y - 1901 + 1) mod 100 = 0 then 1 else 0)"
      by (rule div_succ) simp
    moreover have "y - 1901 + 1 = y - 1900" by simp
    moreover have "(y - 1900) div 100 = y div 100 - 19"
      using div_mult_self1 [of 100 y "- 19"] by simp
    ultimately show ?thesis using mod_shift100 [of y] by simp
  qed
  have c: "(y - 1601) div 400 + (if y mod 400 = 0 then 1 else 0) = y div 400 - 4"
  proof -
    have "(y - 1601 + 1) div 400 = (y - 1601) div 400 + (if (y - 1601 + 1) mod 400 = 0 then 1 else 0)"
      by (rule div_succ) simp
    moreover have "y - 1601 + 1 = y - 1600" by simp
    moreover have "(y - 1600) div 400 = y div 400 - 4"
      using div_mult_self1 [of 400 y "- 4"] by simp
    ultimately show ?thesis using mod_shift400 [of y] by simp
  qed
  have d4: "y mod 100 = 0 \<Longrightarrow> y mod 4 = 0"
    using dvd_trans [of 4 100 y] by (simp add: mod_eq_0_iff_dvd)
  have d100: "y mod 400 = 0 \<Longrightarrow> y mod 100 = 0"
    using dvd_trans [of 100 400 y] by (simp add: mod_eq_0_iff_dvd)
  have l: "(if DaysInYear y = 366 then 1 else 0) =
      (if y mod 4 = 0 then 1 else 0) - (if y mod 100 = 0 then 1 else 0) +
      (if y mod 400 = 0 then 1 else (0::int))"
    using d4 d100 by (auto simp: DaysInYear_def)
  show ?thesis unfolding l DayFromYear_def using a b c by linarith
qed

lemma weekday_core:
  assumes "(q - c - 4) mod 7 = 0"
  shows "(365 * (y - 1970) + y div 4 - c - 477 + 62 + (22 + d +
      (2 * (y mod 4) + 4 * (y mod 7) + 6 * d + q) mod 7)) mod 7 = (0::int)"
proof -
  define k where "k = y div 4"
  define b where "b = y mod 4"
  have y: "y = 4 * k + b" by (simp add: k_def b_def)
  have i: "(2 * b + 4 * (y mod 7) + 6 * d + q) mod 7 = (2 * b + 4 * y + 6 * d + q) mod 7"
  proof -
    have "(2 * b + 4 * (y mod 7) + 6 * d + q) mod 7 = ((2 * b + 6 * d + q) + 4 * (y mod 7)) mod 7"
      by (simp add: algebra_simps)
    also have "\<dots> = ((2 * b + 6 * d + q) + (4 * (y mod 7)) mod 7) mod 7"
      by (simp only: mod_add_right_eq)
    also have "(4 * (y mod 7)) mod 7 = (4 * y) mod 7"
      by (rule mod_mult_right_eq)
    also have "((2 * b + 6 * d + q) + (4 * y) mod 7) mod 7 = ((2 * b + 6 * d + q) + 4 * y) mod 7"
      by (simp only: mod_add_right_eq)
    finally show ?thesis by (simp add: algebra_simps)
  qed
  have "(365 * (y - 1970) + k - c - 477 + 62 + (22 + d +
      (2 * b + 4 * (y mod 7) + 6 * d + q) mod 7)) mod 7 =
      ((365 * (y - 1970) + k - c - 477 + 62 + (22 + d)) +
       (2 * b + 4 * (y mod 7) + 6 * d + q) mod 7) mod 7"
    by (simp add: algebra_simps)
  also have "\<dots> = ((365 * (y - 1970) + k - c - 477 + 62 + (22 + d)) +
       (2 * b + 4 * y + 6 * d + q) mod 7) mod 7"
    by (simp only: i)
  also have "\<dots> = ((365 * (y - 1970) + k - c - 477 + 62 + (22 + d)) +
       (2 * b + 4 * y + 6 * d + q)) mod 7"
    by (simp only: mod_add_right_eq)
  also have "(365 * (y - 1970) + k - c - 477 + 62 + (22 + d)) + (2 * b + 4 * y + 6 * d + q) =
      365 * (y - 1970) + k - c - 477 + 62 + (22 + d + (2 * b + 4 * y + 6 * d + q))"
    by simp
  also have "365 * (y - 1970) + k - c - 477 + 62 + (22 + d + (2 * b + 4 * y + 6 * d + q)) =
      (q - c - 4) + 7 * (211 * k + 53 * b + d - 102777)"
    unfolding y by (simp add: algebra_simps)
  also have "((q - c - 4) + 7 * (211 * k + 53 * b + d - 102777)) mod 7 = (q - c - 4) mod 7"
    by (rule mod_mult_self2)
  finally show ?thesis using assms by (simp add: k_def b_def)
qed

lemma computusF_nonneg:
  assumes "0 \<le> y"
  shows "computusF y =
     22 + (19 * (y mod 19) + fst (computusParams y)) mod 30 +
     (2 * (y mod 4) + 4 * (y mod 7) + 6 * ((19 * (y mod 19) + fst (computusParams y)) mod 30) +
      snd (computusParams y)) mod 7"
proof -
  obtain m q where mq: "computusParams y = (m, q)" by (cases "computusParams y")
  have r: "22 \<le> m" "0 \<le> q" using computusParams_range [of y] mq by simp_all
  have a: "jsRem y 19 = y mod 19" "jsRem y 4 = y mod 4" "jsRem y 7 = y mod 7"
    using assms by (simp_all add: jsRem_nonneg)
  have d: "jsRem (19 * (y mod 19) + m) 30 = (19 * (y mod 19) + m) mod 30"
    using r by (intro jsRem_nonneg) simp_all
  have e: "jsRem (2 * (y mod 4) + 4 * (y mod 7) + 6 * ((19 * (y mod 19) + m) mod 30) + q) 7 =
      (2 * (y mod 4) + 4 * (y mod 7) + 6 * ((19 * (y mod 19) + m) mod 30) + q) mod 7"
    using r by (intro jsRem_nonneg) simp_all
  show ?thesis by (simp add: computusF_def mq a d e Let_def)
qed

lemma day_of_year:
  assumes "0 \<le> n" "n < DaysInYear y"
  shows "YearFromTime ((DayFromYear y + n) * msPerDay) = y"
    and "DayWithinYear ((DayFromYear y + n) * msPerDay) = n"
    and "InLeapYear ((DayFromYear y + n) * msPerDay) = (if DaysInYear y = 366 then 1 else 0)"
proof -
  have "YearFromDay (DayFromYear y + n) = y"
    using assms by (intro YearFromDay_unique) (simp_all add: DayFromYear_Suc)
  then show y: "YearFromTime ((DayFromYear y + n) * msPerDay) = y"
    by (simp add: YearFromTime_def)
  show "DayWithinYear ((DayFromYear y + n) * msPerDay) = n"
    by (simp add: DayWithinYear_def y)
  show "InLeapYear ((DayFromYear y + n) * msPerDay) = (if DaysInYear y = 366 then 1 else 0)"
    by (simp add: InLeapYear_def y)
qed

text \<open>
  What \<open>computusPaschalis\<close> returns for the years of its table: a Sunday of the given
  year, between 22 March and 26 April.
\<close>

lemma computusPaschalis_sunday:
  assumes "1583 \<le> y" "y \<le> 2499"
  shows "getDay (computusPaschalis y) = 0"
    and "getFullYear (computusPaschalis y) = y"
    and "(getMonth (computusPaschalis y) = 2 \<and> 22 \<le> getDate (computusPaschalis y) \<and>
          getDate (computusPaschalis y) \<le> 31) \<or>
         (getMonth (computusPaschalis y) = 3 \<and> 1 \<le> getDate (computusPaschalis y) \<and>
          getDate (computusPaschalis y) \<le> 26)"
proof -
  define l :: int where "l = (if DaysInYear y = 366 then 1 else 0)"
  define f where "f = computusF y"
  define t where "t = (DayFromYear y + (58 + l + f)) * msPerDay"
  have y0: "0 \<le> y" "100 \<le> y" using assms by simp_all
  have f: "22 \<le> f" "f \<le> 57" using computusF_range [OF y0(1)] by (simp_all add: f_def)
  have l: "0 \<le> l" "l \<le> 1" by (simp_all add: l_def)
  have p: "computusPaschalis y = t"
    using pascha_100 [OF y0(2)] by (simp add: pascha_def t_def l_def f_def algebra_simps)
  have n: "0 \<le> 58 + l + f" "58 + l + f < DaysInYear y"
    using f l DaysInYear_bounds [of y] by simp_all
  have g: "YearFromTime t = y" "DayWithinYear t = 58 + l + f" "InLeapYear t = l"
    unfolding t_def l_def using day_of_year [OF n [unfolded l_def]] by simp_all
  show "getFullYear (computusPaschalis y) = y" by (simp add: p getFullYear_def g)
  have m: "MonthFromTime t = (if f \<le> 31 then 2 else 3)"
    using f l by (simp add: MonthFromTime_def g Let_def)
  have d: "DateFromTime t = (if f \<le> 31 then f else f - 31)"
    using f l by (simp add: DateFromTime_def m g Let_def)
  show "(getMonth (computusPaschalis y) = 2 \<and> 22 \<le> getDate (computusPaschalis y) \<and>
          getDate (computusPaschalis y) \<le> 31) \<or>
         (getMonth (computusPaschalis y) = 3 \<and> 1 \<le> getDate (computusPaschalis y) \<and>
          getDate (computusPaschalis y) \<le> 26)"
    using f by (simp add: p getMonth_def getDate_def m d)
  have "Day t + 4 = (DayFromYear y + l) + 62 + f" by (simp add: t_def)
  also have "\<dots> = 365 * (y - 1970) + y div 4 - (y div 100 - y div 400) - 477 + 62 + f"
    unfolding l_def DayFromYear_leap by simp
  finally have "Day t + 4 =
      365 * (y - 1970) + y div 4 - (y div 100 - y div 400) - 477 + 62 + f" .
  then have w: "WeekDay t =
      (365 * (y - 1970) + y div 4 - (y div 100 - y div 400) - 477 + 62 + f) mod 7"
    unfolding WeekDay_def by (rule arg_cong)
  show "getDay (computusPaschalis y) = 0"
    unfolding p getDay_def w f_def computusF_nonneg [OF y0(1)]
    using weekday_core [OF century_shift [OF assms]] by (simp add: add.assoc)
qed

section \<open>The seasons around Easter\<close>

text \<open>
  What \<open>tempus\<close> does around Easter, for a year \<open>Y\<close> from 100 on (the \<open>Date\<close> constructor
  reads a smaller non-negative year as 1900 + year). The milestones are the dates that
  the functions of computus.ts return, local midnights, and \<open>tempus\<close> compares dates as
  time values: the intervals below are intervals of time values.
\<close>

lemma tempus_paschal_intervals:
  assumes "100 \<le> Y"
  shows "tempus (feriaVInCenaDomini Y) = TRIDUUM"
    and "tempus (feriaVIInPassioneDomini Y) = TRIDUUM"
    and "tempus (sabbatumSanctum Y) = TRIDUUM"
    and "tempus (pascha Y) = TRIDUUM"
    and "\<And>d. feriaVInCenaDomini Y \<le> d \<Longrightarrow> d \<le> pascha Y \<Longrightarrow> tempus d = TRIDUUM"
    and "\<And>d. feriaIVCinerum Y \<le> d \<Longrightarrow> d < feriaVInCenaDomini Y \<Longrightarrow> tempus d = QUADRAGESIMA"
    and "\<And>d. pascha Y < d \<Longrightarrow> d \<le> pentecostes Y \<Longrightarrow> tempus d = PASCHALE"
proof -
  have o: "feriaIVCinerum Y \<le> feriaVInCenaDomini Y" "feriaVInCenaDomini Y \<le> feriaVIInPassioneDomini Y"
    "feriaVIInPassioneDomini Y \<le> sabbatumSanctum Y" "sabbatumSanctum Y \<le> pascha Y"
    "pascha Y \<le> pentecostes Y"
    by (simp_all add: feriaIVCinerum_def feriaVInCenaDomini_def feriaVIInPassioneDomini_def
        sabbatumSanctum_def pentecostes_def addDies_eq msPerDay_def)
  show t: "\<And>d. feriaVInCenaDomini Y \<le> d \<Longrightarrow> d \<le> pascha Y \<Longrightarrow> tempus d = TRIDUUM"
    using tempus_paschal_span(2) [OF assms] o by simp
  show "\<And>d. feriaIVCinerum Y \<le> d \<Longrightarrow> d < feriaVInCenaDomini Y \<Longrightarrow> tempus d = QUADRAGESIMA"
    using tempus_paschal_span(2) [OF assms] o by simp
  show "\<And>d. pascha Y < d \<Longrightarrow> d \<le> pentecostes Y \<Longrightarrow> tempus d = PASCHALE"
    using tempus_paschal_span(2) [OF assms] o by simp
  show "tempus (feriaVInCenaDomini Y) = TRIDUUM" using t o by simp
  show "tempus (feriaVIInPassioneDomini Y) = TRIDUUM" using t o by simp
  show "tempus (sabbatumSanctum Y) = TRIDUUM" using t o by simp
  show "tempus (pascha Y) = TRIDUUM" using t o by simp
qed

text \<open>
  Every instant of Easter Sunday after its midnight is a date of the same calendar day
  as \<open>pascha Y\<close> and has the season \<open>PASCHALE\<close>; every instant of Pentecost Sunday after its
  midnight has left the Easter season.
\<close>

lemma same_day:
  assumes "t = n * msPerDay" "t \<le> d" "d < addDies t 1"
  shows "idemDies t d"
proof -
  have "d div msPerDay = n"
    using assms by (intro div_eqI) (simp_all add: addDies_eq msPerDay_def)
  then show ?thesis by (simp add: idemDies_iff Day_def assms(1) msPerDay_def)
qed

lemma tempus_later_on_easter_sunday:
  assumes "100 \<le> Y" "pascha Y < d" "d < addDies (pascha Y) 1"
  shows "idemDies (pascha Y) d" and "tempus d = PASCHALE"
proof -
  show "idemDies (pascha Y) d"
    using same_day [OF pascha_100 [OF assms(1)]] assms(2,3) by simp
  have "d \<le> pentecostes Y"
    using assms(3) by (simp add: pentecostes_def addDies_eq msPerDay_def)
  then show "tempus d = PASCHALE"
    using tempus_paschal_intervals(7) [OF assms(1,2)] by simp
qed

lemma tempus_later_on_pentecost:
  assumes "100 \<le> Y" "pentecostes Y < d" "d < addDies (pentecostes Y) 1"
  shows "idemDies (pentecostes Y) d" and "tempus d = ORDINARIUM"
proof -
  have p: "pentecostes Y = (DayFromYear Y + 58 + (if DaysInYear Y = 366 then 1 else 0) +
      computusF Y + 49) * msPerDay"
    by (simp add: pentecostes_def addDies_eq pascha_100 [OF assms(1)] algebra_simps)
  show "idemDies (pentecostes Y) d"
    using same_day [OF p] assms(2,3) by simp
  have c: "feriaIVCinerum Y = pascha Y - 46 * msPerDay" "pentecostes Y = pascha Y + 49 * msPerDay"
    "feriaVInCenaDomini Y = pascha Y - 3 * msPerDay"
    by (simp_all add: feriaIVCinerum_def pentecostes_def feriaVInCenaDomini_def addDies_eq)
  have d1: "(DayFromYear Y + 34) * msPerDay \<le> d"
    using assms(2) pascha_bounds(1) [OF assms(1)] unfolding c by (simp add: msPerDay_def)
  have d2: "d \<le> (DayFromYear Y + 166) * msPerDay"
    using assms(3) pascha_bounds(2) [OF assms(1)] unfolding c addDies_eq by (simp add: msPerDay_def)
  have "DayFromYear Y * msPerDay \<le> d" using d1 by (simp add: msPerDay_def)
  moreover have "d < DayFromYear (Y + 1) * msPerDay"
    using d2 DaysInYear_bounds [of Y] by (simp add: DayFromYear_Suc msPerDay_def)
  ultimately have yr: "getFullYear d = Y" by (rule getFullYear_unique)
  have adv: "\<not> d \<ge> dominicaIAdventus Y"
    using d2 dominicaIAdventus_bounds(1) [OF assms(1)] by (simp add: msPerDay_def)
  have nat: "\<not> d \<ge> nativitas Y"
    using adv dominicaIAdventus_bounds(2) [OF assms(1)] by simp
  have bap: "\<not> d < baptismaDomini Y"
    using d1 baptismaDomini_bound [OF assms(1)] by (simp add: msPerDay_def)
  have q: "\<not> d < feriaVInCenaDomini Y" "\<not> d \<le> pascha Y"
    using assms(2) unfolding c by (simp_all add: msPerDay_def)
  show "tempus d = ORDINARIUM"
    unfolding tempus_def Let_def yr using adv nat bap assms(2) q by auto
qed

section \<open>Properties of the resolution\<close>

lemma findCelebrations_eq:
  "findCelebrations src d =
     sort_key (\<lambda>c. PraecedentiaValue (praecedentia c))
       ((case findTemporaleCelebration src d of Some t \<Rightarrow> [t] | None \<Rightarrow> []) @
        (case findSanctoraleCelebration src d of Some s \<Rightarrow> [s] | None \<Rightarrow> []))"
  by (simp add: findCelebrations_def Let_def split: option.splits)

lemma set_findCelebrations:
  "set (findCelebrations src d) =
     set_option (findTemporaleCelebration src d) \<union> set_option (findSanctoraleCelebration src d)"
  by (cases "findTemporaleCelebration src d"; cases "findSanctoraleCelebration src d")
    (auto simp: findCelebrations_eq)

lemma length_findCelebrations:
  "length (findCelebrations src d) =
     (case findTemporaleCelebration src d of Some t \<Rightarrow> 1 | None \<Rightarrow> 0) +
     (case findSanctoraleCelebration src d of Some s \<Rightarrow> 1 | None \<Rightarrow> 0)"
  by (cases "findTemporaleCelebration src d"; cases "findSanctoraleCelebration src d")
    (simp_all add: findCelebrations_eq)

lemma sorted_findCelebrations:
  "sorted (map (\<lambda>c. PraecedentiaValue (praecedentia c)) (findCelebrations src d))"
  by (simp add: findCelebrations_eq)

lemma head_findCelebrations:
  assumes "findCelebrations src d = c # cs" "x \<in> set (c # cs)"
  shows "PraecedentiaValue (praecedentia c) \<le> PraecedentiaValue (praecedentia x)"
proof -
  have "sorted (map (\<lambda>c. PraecedentiaValue (praecedentia c)) (c # cs))"
    using sorted_findCelebrations [of src d] assms(1) by simp
  then show ?thesis using assms(2) by auto
qed

lemma primaryCelebration_cases:
  "primaryCelebration src d =
     (case findCelebrations src d of c # _ \<Rightarrow> c | [] \<Rightarrow> getFerial d)"
  by (simp add: primaryCelebration_def)

lemma primaryCelebration_none:
  "findTemporaleCelebration src d = None \<Longrightarrow> findSanctoraleCelebration src d = None \<Longrightarrow>
   primaryCelebration src d = getFerial d"
  by (simp add: primaryCelebration_def findCelebrations_eq)

lemma primaryCelebration_only_sanctorale:
  "findTemporaleCelebration src d = None \<Longrightarrow> findSanctoraleCelebration src d = Some s \<Longrightarrow>
   primaryCelebration src d = s"
  by (simp add: primaryCelebration_def findCelebrations_eq)

lemma getDiesLiturgicus_primary:
  "dl_gradus (getDiesLiturgicus src d) = gradus (primaryCelebration src d)"
  "dl_praecedentia (getDiesLiturgicus src d) = praecedentia (primaryCelebration src d)"
  "dl_colores (getDiesLiturgicus src d) = colores (primaryCelebration src d)"
  "dl_genus (getDiesLiturgicus src d) = genus (primaryCelebration src d)"
  "dl_id (getDiesLiturgicus src d) = id' (primaryCelebration src d)"
  "dl_nomina_la (getDiesLiturgicus src d) = nomina_la (primaryCelebration src d)"
  by (simp_all add: getDiesLiturgicus_def Let_def)

lemma getDiesLiturgicus_commemoratio:
  "dl_commemoratio (getDiesLiturgicus src d) =
     (if commemorations src d = [] then None
      else Some (map (\<lambda>c. buildLiturgicalDay c d) (commemorations src d)))"
  by (simp add: getDiesLiturgicus_def Let_def)

lemma getDiesLiturgicus_alternativae:
  "dl_alternativae (getDiesLiturgicus src d) =
     (if alternatives src d = [] then None
      else Some (map (\<lambda>c. buildLiturgicalDay c d) (alternatives src d)))"
  by (simp add: getDiesLiturgicus_def Let_def)



lemma canCelebrate_ad_libitum:
  "gradus c = MEMORIA_AD_LIBITUM \<Longrightarrow> tempus d = QUADRAGESIMA \<or> tempus d = ADVENTUS \<Longrightarrow>
   \<not> canCelebrate c d"
  by (simp add: canCelebrate_def Let_def)





lemma primaryCelebration_least:
  assumes "c \<in> set (findCelebrations src d)"
  shows "PraecedentiaValue (praecedentia (primaryCelebration src d)) \<le>
     PraecedentiaValue (praecedentia c)"
proof (cases "findCelebrations src d")
  case Nil
  then show ?thesis using assms by simp
next
  case (Cons a as)
  then have "primaryCelebration src d = a" by (simp add: primaryCelebration_def)
  then show ?thesis using head_findCelebrations [OF Cons] assms Cons by simp
qed

lemma sanctoraleTransferred_iff:
  "sanctoraleTransferred src d \<longleftrightarrow>
     (\<exists>s. findSanctoraleCelebration src d = Some s \<and>
        ((id' s = ''annunciation'' \<and> month s = Some 3 \<and> day s = Some 25 \<and>
          - 7 \<le> roundDiv (getTime d - getTime (pascha (getFullYear d))) (1000 * 60 * 60 * 24) \<and>
          roundDiv (getTime d - getTime (pascha (getFullYear d))) (1000 * 60 * 60 * 24) \<le> 7) \<or>
         (id' s = ''joseph_spouse_of_mary'' \<and> month s = Some 3 \<and> day s = Some 19 \<and>
          - 7 \<le> roundDiv (getTime d - getTime (pascha (getFullYear d))) (1000 * 60 * 60 * 24) \<and>
          roundDiv (getTime d - getTime (pascha (getFullYear d))) (1000 * 60 * 60 * 24) \<le> 0)))"
  by (cases "findSanctoraleCelebration src d")
    (auto simp: sanctoraleTransferred_def getTransferDate_def Let_def split: if_splits)

lemma getFragmentNames_transferred:
  assumes "sanctoraleTransferred src d"
  shows "getFragmentNames src d h =
     getFragmentNames (src\<lparr>findSanctoraleCelebration := \<lambda>_. None\<rparr>) d h"
proof -
  obtain s where s: "findSanctoraleCelebration src d = Some s"
    using assms by (cases "findSanctoraleCelebration src d") (simp_all add: sanctoraleTransferred_def)
  have n: "\<not> sanctoraleTransferred (src\<lparr>findSanctoraleCelebration := \<lambda>_. None\<rparr>) d"
    by (simp add: sanctoraleTransferred_def)
  show ?thesis
    unfolding getFragmentNames_def Let_def using assms n s
    by (cases "findTemporale src d") simp_all
qed

text \<open>
  The primary celebration is not filtered: an optional memorial that is the only found
  candidate of a day of Lent or Advent becomes the primary celebration, and the resolved
  day has neither commemorations nor alternatives.
\<close>

lemma optional_memorial_alone_is_primary:
  assumes "findTemporaleCelebration src d = None" "findSanctoraleCelebration src d = Some s"
    and "gradus s = MEMORIA_AD_LIBITUM" "tempus d = QUADRAGESIMA \<or> tempus d = ADVENTUS"
  shows "dl_gradus (getDiesLiturgicus src d) = MEMORIA_AD_LIBITUM"
    and "dl_id (getDiesLiturgicus src d) = id' s"
    and "dl_commemoratio (getDiesLiturgicus src d) = None"
    and "dl_alternativae (getDiesLiturgicus src d) = None"
proof -
  have f: "findCelebrations src d = [s]" using assms(1,2) by (simp add: findCelebrations_eq)
  have p: "primaryCelebration src d = s" by (simp add: primaryCelebration_def f)
  have n: "\<not> canCelebrate s d" using canCelebrate_ad_libitum [OF assms(3,4)] .
  show "dl_gradus (getDiesLiturgicus src d) = MEMORIA_AD_LIBITUM"
    by (simp add: getDiesLiturgicus_primary p assms(3))
  show "dl_id (getDiesLiturgicus src d) = id' s"
    by (simp add: getDiesLiturgicus_primary p)
  show "dl_commemoratio (getDiesLiturgicus src d) = None"
    by (simp add: getDiesLiturgicus_commemoratio commemorations_def f)
  show "dl_alternativae (getDiesLiturgicus src d) = None"
    using n by (simp add: getDiesLiturgicus_alternativae alternatives_def f)
qed

text \<open>
  The fallback on a privileged day. When the lookups find nothing on Ash Wednesday, the
  primary celebration is the weekday of Lent that \<open>getFerial\<close> builds, of precedence
  value 902: the filter of the privileged days is applied to commemorations and
  alternatives, never to the primary celebration.
\<close>

lemma getDiesLiturgicus_ash_wednesday_no_candidate:
  "ymd (feriaIVCinerum 2025) = (2025, 3, 5) \<and>
   list_ex (\<lambda>q. idemDies q (newDate 2025 2 5)) (privilegedDays (getFullYear (newDate 2025 2 5))) \<and>
   dl_id (getDiesLiturgicus
     \<lparr> findTemporale = (\<lambda>d. None), findTemporaleCelebration = (\<lambda>d. None),
       findSanctoraleCelebration = (\<lambda>d. None) \<rparr> (newDate 2025 2 5)) = ''quadragesima/week-0/3'' \<and>
   PraecedentiaValue (dl_praecedentia (getDiesLiturgicus
     \<lparr> findTemporale = (\<lambda>d. None), findTemporaleCelebration = (\<lambda>d. None),
       findSanctoraleCelebration = (\<lambda>d. None) \<rparr> (newDate 2025 2 5))) = 902"
  by code_simp

text \<open>The day of the season that \<open>getFerial\<close> builds, field by field.\<close>

lemma getFerial_fields:
  "genus (getFerial d) = TEMPORALE"
  "gradus (getFerial d) = (if getDay d = 0 then SOLLEMNITAS else FERIA)"
  "id' (getFerial d) =
     toLowerCase (TempusValue (tempus d)) @ ''/week-'' @ numToString (hebdomadaTemporis d) @
     ''/'' @ numToString (getDay d)"
  "shortCode (getFerial d) = TempusCodes (tempus d) @ numToString (hebdomadaTemporis d)"
  "colores (getFerial d) = [getDefaultColor (tempus d) d]"
  by (simp_all add: getFerial_def Let_def estDominica_def diesHebdomadae_def)

lemma getFerial_praecedentia_dominica:
  assumes "getDay d = 0"
  shows "praecedentia (getFerial d) =
     (if tempus d = ADVENTUS \<or> tempus d = QUADRAGESIMA \<or> tempus d = PASCHALE
      then DOMINICA_PRIVILEGIATA_2
      else if tempus d = NATIVITAS then DOMINICA_NATIVITATIS_6 else DOMINICA_ORDINARII_6)"
  using assms by (cases "tempus d") (simp_all add: getFerial_def Let_def estDominica_def)

lemma getFerial_praecedentia_feria:
  assumes "getDay d \<noteq> 0"
  shows "tempus d = TRIDUUM \<Longrightarrow> praecedentia (getFerial d) = TRIDUUM_1"
    and "tempus d = QUADRAGESIMA \<Longrightarrow> praecedentia (getFerial d) = FERIA_QUADRAGESIMAE_9"
    and "tempus d = ADVENTUS \<Longrightarrow> praecedentia (getFerial d) =
      (if getMonth d = 11 \<and> 17 \<le> getDate d then FERIA_ADVENTUS_17_24_9 else FERIA_ADVENTUS_13)"
    and "tempus d = NATIVITAS \<Longrightarrow> praecedentia (getFerial d) =
      (if getMonth d = 11 \<and> 26 \<le> getDate d \<and> getDate d \<le> 31 then DIES_OCTAVAE_NATIVITATIS_9
       else FERIA_NATIVITATIS_13)"
    and "tempus d = PASCHALE \<Longrightarrow> praecedentia (getFerial d) = FERIA_PASCHAE_13"
    and "tempus d = ORDINARIUM \<Longrightarrow> praecedentia (getFerial d) = FERIA_ORDINARII_14"
  using assms by (simp_all add: getFerial_def Let_def estDominica_def)

lemma TempusCodes_not_Nil: "TempusCodes t \<noteq> []"
  by (cases t) simp_all

lemma getDiesLiturgicus_none:
  assumes "findTemporaleCelebration src d = None" "findSanctoraleCelebration src d = None"
  shows "dl_shortCode (getDiesLiturgicus src d) =
      TempusCodes (tempus d) @ numToString (hebdomadaTemporis d)"
    and "dl_commemoratio (getDiesLiturgicus src d) = None"
    and "dl_alternativae (getDiesLiturgicus src d) = None"
proof -
  have e: "findCelebrations src d = []" using assms by (simp add: findCelebrations_eq)
  have p: "primaryCelebration src d = getFerial d" using assms by (rule primaryCelebration_none)
  show "dl_shortCode (getDiesLiturgicus src d) =
      TempusCodes (tempus d) @ numToString (hebdomadaTemporis d)"
    by (simp add: getDiesLiturgicus_def Let_def p getFerial_fields TempusCodes_not_Nil)
  show "dl_commemoratio (getDiesLiturgicus src d) = None"
    by (simp add: getDiesLiturgicus_commemoratio commemorations_def e)
  show "dl_alternativae (getDiesLiturgicus src d) = None"
    by (simp add: getDiesLiturgicus_alternativae alternatives_def e)
qed

lemma getDiesLiturgicus_tempus:
  "dl_tempus (getDiesLiturgicus src d) = tempus d"
  "dl_date (getDiesLiturgicus src d) = d"
  by (simp_all add: getDiesLiturgicus_def Let_def)

lemma primaryCelebration_found:
  assumes "findCelebrations src d \<noteq> []"
  shows "primaryCelebration src d \<in> set (findCelebrations src d)"
  using assms by (cases "findCelebrations src d") (simp_all add: primaryCelebration_def)

section \<open>The claims\<close>

text \<open>
  Claim C1 says that Easter lies between 22 March and 25 April for every year from 1583
  to 2499. For 1981 the function computes \<open>d = 29\<close>, \<open>e = 6\<close> and \<open>f = 57\<close>, and returns
  26 April 1981: a Sunday, one week after the Easter of that year (19 April), and later
  than 25 April. (By \<open>computusPaschalis_sunday\<close> the result is a Sunday between 22 March
  and 26 April for every year of the range.)
\<close>

theorem computusPaschalis_1981:
  "1583 \<le> (1981::int) \<and> (1981::int) \<le> 2499 \<and>
   computusF 1981 = 57 \<and>
   ymd (computusPaschalis 1981) = (1981, 4, 26) \<and>
   getDay (computusPaschalis 1981) = 0 \<and>
   newDate 1981 3 25 < computusPaschalis 1981"
  by code_simp

text \<open>
  Claim C2. The checkpoint dates: Easter 2025 is 20 April 2025, Easter 2024 is 31 March
  2024, Ash Wednesday 2025 is 5 March 2025, Pentecost 2025 is 8 June 2025, the First
  Sunday of Advent 2025 is 30 November 2025, and at the century boundaries Easter 1900 is
  15 April 1900, Easter 2000 is 23 April 2000 and Easter 2100 is 28 March 2100.
\<close>

theorem checkpoint_dates:
  "ymd (computusPaschalis 2025) = (2025, 4, 20) \<and>
   ymd (computusPaschalis 2024) = (2024, 3, 31) \<and>
   ymd (feriaIVCinerum 2025) = (2025, 3, 5) \<and>
   ymd (pentecostes 2025) = (2025, 6, 8) \<and>
   ymd (dominicaIAdventus 2025) = (2025, 11, 30) \<and>
   ymd (computusPaschalis 1900) = (1900, 4, 15) \<and>
   ymd (computusPaschalis 2000) = (2000, 4, 23) \<and>
   ymd (computusPaschalis 2100) = (2100, 3, 28)"
  by code_simp


text \<open>
  Claim C3 says that Easter Sunday itself belongs to the Triduum, that the Easter
  season begins the day after Easter and that it lasts up to Pentecost inclusive.
  \<open>tempus\<close> compares its argument with the milestones as time values, and the milestones
  are local midnights. For the \<open>Date\<close> of Easter Sunday 2025 at noon, a date of the same
  calendar day as \<open>pascha 2025\<close> (\<open>idemDies\<close>), it answers \<open>PASCHALE\<close>; for Pentecost Sunday
  2025 at noon it answers \<open>ORDINARIUM\<close>. Only the midnight values get the seasons the
  claim names. \<open>hodie\<close> passes the current time of day. (Lemmas
  \<open>tempus_later_on_easter_sunday\<close> and \<open>tempus_later_on_pentecost\<close> have the same for every
  year from 100 on; \<open>tempus_paschal_intervals\<close> has the seasons of the midnight values.)
\<close>

theorem tempus_easter_sunday_noon:
  "ymd (pascha 2025) = (2025, 4, 20) \<and>
   ymd (newDateHM 2025 3 20 12 0) = (2025, 4, 20) \<and>
   idemDies (pascha 2025) (newDateHM 2025 3 20 12 0) \<and>
   tempus (pascha 2025) = TRIDUUM \<and>
   tempus (newDateHM 2025 3 20 12 0) = PASCHALE \<and>
   ymd (pentecostes 2025) = (2025, 6, 8) \<and>
   idemDies (pentecostes 2025) (newDateHM 2025 5 8 12 0) \<and>
   tempus (pentecostes 2025) = PASCHALE \<and>
   tempus (newDateHM 2025 5 8 12 0) = ORDINARIUM"
  by code_simp




text \<open>
  Claim C5 says that an optional memorial is never the primary celebration of a day of
  Advent or Lent. \<open>getDiesLiturgicus\<close> takes the head of the found candidates as primary
  without asking \<open>canCelebrate\<close>. On Monday 17 March 2025, in Lent, the only candidate is
  St Patrick, an optional memorial: \<open>canCelebrate\<close> refuses it, yet it is the primary
  celebration of the resolved day, and it is neither a commemoration nor an alternative.
  \<open>getFragmentNames\<close> compares the candidate with the day of the season and keeps the
  Lenten weekday as primary. (Lemma \<open>optional_memorial_alone_is_primary\<close> has the same
  for every source and date.)
\<close>

theorem getDiesLiturgicus_patrick_2025:
  "tempus (newDate 2025 2 17) = QUADRAGESIMA \<and>
   findCelebrations exampleSource (newDate 2025 2 17) = [stPatrick] \<and>
   gradus stPatrick = MEMORIA_AD_LIBITUM \<and>
   \<not> canCelebrate stPatrick (newDate 2025 2 17) \<and>
   dl_id (getDiesLiturgicus exampleSource (newDate 2025 2 17)) = ''patrick_bishop'' \<and>
   dl_gradus (getDiesLiturgicus exampleSource (newDate 2025 2 17)) = MEMORIA_AD_LIBITUM \<and>
   dl_commemoratio (getDiesLiturgicus exampleSource (newDate 2025 2 17)) = None \<and>
   dl_alternativae (getDiesLiturgicus exampleSource (newDate 2025 2 17)) = None \<and>
   primary (getFragmentNames exampleSource (newDate 2025 2 17) LAUDES) = ''QUA/02/2LUN/LAU''"
  by code_simp

text \<open>
  Claim C6 says that every Sanctorale candidate of a date within seven days of Easter is
  marked as transferred and left out of the day. \<open>getTransferDate\<close> knows two candidates
  only. On 25 April 2011, the Monday after Easter, St Mark is not marked as transferred,
  and the resolved day lists him as a commemoration.
\<close>

theorem sanctorale_mark_2011_counterexample:
  "ymd (pascha 2011) = (2011, 4, 24) \<and>
   roundDiv (getTime (newDate 2011 3 25) - getTime (pascha 2011)) (1000 * 60 * 60 * 24) = 1 \<and>
   findSanctoraleCelebration exampleSource (newDate 2011 3 25) = Some stMark \<and>
   getTransferDate stMark (newDate 2011 3 25) = None \<and>
   sanctoraleTransferred exampleSource (newDate 2011 3 25) = False \<and>
   dl_commemoratio (getDiesLiturgicus exampleSource (newDate 2011 3 25)) =
     Some [buildLiturgicalDay stMark (newDate 2011 3 25)]"
  by code_simp

text \<open>
  Claim C6, amended. \<open>getFragmentNames\<close> marks the Sanctorale candidate of a date as
  transferred exactly when it is the Annunciation (\<open>annunciation\<close>, 25 March) and the
  date is at most seven days before or after the Easter of its year, or St Joseph
  (\<open>joseph_spouse_of_mary\<close>, 19 March) and the date is Easter or at most seven days before
  it. A candidate marked as transferred is left out: the fragment names are those of the
  same day with no Sanctorale candidate. No other candidate is marked.
\<close>

theorem transfer_annunciation_joseph_only:
  "(sanctoraleTransferred src d \<longleftrightarrow>
     (\<exists>s. findSanctoraleCelebration src d = Some s \<and>
        ((id' s = ''annunciation'' \<and> month s = Some 3 \<and> day s = Some 25 \<and>
          - 7 \<le> roundDiv (getTime d - getTime (pascha (getFullYear d))) (1000 * 60 * 60 * 24) \<and>
          roundDiv (getTime d - getTime (pascha (getFullYear d))) (1000 * 60 * 60 * 24) \<le> 7) \<or>
         (id' s = ''joseph_spouse_of_mary'' \<and> month s = Some 3 \<and> day s = Some 19 \<and>
          - 7 \<le> roundDiv (getTime d - getTime (pascha (getFullYear d))) (1000 * 60 * 60 * 24) \<and>
          roundDiv (getTime d - getTime (pascha (getFullYear d))) (1000 * 60 * 60 * 24) \<le> 0)))) \<and>
   (sanctoraleTransferred src d \<longrightarrow>
      getFragmentNames src d h =
        getFragmentNames (src\<lparr>findSanctoraleCelebration := \<lambda>_. None\<rparr>) d h)"
  using sanctoraleTransferred_iff [of src d] getFragmentNames_transferred [of src d h] by blast

text \<open>
  Witness for C6: on 25 March 2016, Good Friday, the Annunciation is marked as
  transferred and the fragment names are those of Good Friday alone.
\<close>

theorem transfer_annunciation_joseph_only_witness:
  "findSanctoraleCelebration exampleSource (newDate 2016 2 25) = Some annunciation \<and>
   roundDiv (getTime (newDate 2016 2 25) - getTime (pascha (getFullYear (newDate 2016 2 25))))
     (1000 * 60 * 60 * 24) = - 2 \<and>
   sanctoraleTransferred exampleSource (newDate 2016 2 25) \<and>
   getFragmentNames exampleSource (newDate 2016 2 25) LAUDES =
     getFragmentNames (exampleSource\<lparr>findSanctoraleCelebration := \<lambda>_. None\<rparr>) (newDate 2016 2 25) LAUDES \<and>
   primary (getFragmentNames exampleSource (newDate 2016 2 25) LAUDES) = ''TRI2/LAU''"
proof -
  have a: "findSanctoraleCelebration exampleSource (newDate 2016 2 25) = Some annunciation"
    by code_simp
  have b: "roundDiv (getTime (newDate 2016 2 25) - getTime (pascha (getFullYear (newDate 2016 2 25))))
     (1000 * 60 * 60 * 24) = - 2"
    by code_simp
  have c: "id' annunciation = ''annunciation'' \<and> month annunciation = Some 3 \<and>
      day annunciation = Some 25"
    by (simp add: annunciation_def)
  have t: "sanctoraleTransferred exampleSource (newDate 2016 2 25)"
    using transfer_annunciation_joseph_only [of exampleSource "newDate 2016 2 25" LAUDES] a b c
    by simp
  have p: "primary (getFragmentNames exampleSource (newDate 2016 2 25) LAUDES) = ''TRI2/LAU''"
    by code_simp
  show ?thesis
    using transfer_annunciation_joseph_only [of exampleSource "newDate 2016 2 25" LAUDES] a b t p
    by simp
qed

text \<open>
  Claim C7. Building the liturgical day is a total function of the date, and the primary
  celebration is always there. It is a found candidate of the least precedence value
  whenever a lookup finds one. When neither lookup finds a candidate it is the day of the
  season of the date: of the kind Temporale, a Sunday of rank solemnity or a weekday of
  rank feria, named after the season, the week of the season and the day of the week,
  in the colour of the season, without commemorations or alternatives, and with the
  precedence of the Sundays or weekdays of that season (the weekdays of Advent from 17
  December on and those of the Christmas octave ranking higher). So between Ash Wednesday
  and Holy Thursday of a year from 100 on it is a Sunday or a weekday of Lent, and after
  Easter Sunday up to Pentecost a Sunday or a weekday of the Easter season.
\<close>

theorem getDiesLiturgicus_primary_seasonal:
  "(\<forall>c \<in> set (findCelebrations src d).
      PraecedentiaValue (dl_praecedentia (getDiesLiturgicus src d)) \<le>
      PraecedentiaValue (praecedentia c)) \<and>
   (\<not> (findTemporaleCelebration src d = None \<and> findSanctoraleCelebration src d = None) \<longrightarrow>
      (\<exists>c \<in> set_option (findTemporaleCelebration src d) \<union>
             set_option (findSanctoraleCelebration src d).
         dl_id (getDiesLiturgicus src d) = id' c \<and>
         dl_gradus (getDiesLiturgicus src d) = gradus c \<and>
         dl_praecedentia (getDiesLiturgicus src d) = praecedentia c \<and>
         dl_genus (getDiesLiturgicus src d) = genus c \<and>
         dl_colores (getDiesLiturgicus src d) = colores c \<and>
         dl_nomina_la (getDiesLiturgicus src d) = nomina_la c)) \<and>
   (findTemporaleCelebration src d = None \<and> findSanctoraleCelebration src d = None \<longrightarrow>
      dl_date (getDiesLiturgicus src d) = d \<and>
      dl_tempus (getDiesLiturgicus src d) = tempus d \<and>
      dl_genus (getDiesLiturgicus src d) = TEMPORALE \<and>
      dl_gradus (getDiesLiturgicus src d) = (if getDay d = 0 then SOLLEMNITAS else FERIA) \<and>
      dl_id (getDiesLiturgicus src d) =
        toLowerCase (TempusValue (tempus d)) @ ''/week-'' @ numToString (hebdomadaTemporis d) @
        ''/'' @ numToString (getDay d) \<and>
      dl_shortCode (getDiesLiturgicus src d) =
        TempusCodes (tempus d) @ numToString (hebdomadaTemporis d) \<and>
      dl_colores (getDiesLiturgicus src d) = [getDefaultColor (tempus d) d] \<and>
      dl_commemoratio (getDiesLiturgicus src d) = None \<and>
      dl_alternativae (getDiesLiturgicus src d) = None \<and>
      (getDay d = 0 \<longrightarrow>
         dl_praecedentia (getDiesLiturgicus src d) =
           (if tempus d = ADVENTUS \<or> tempus d = QUADRAGESIMA \<or> tempus d = PASCHALE
            then DOMINICA_PRIVILEGIATA_2
            else if tempus d = NATIVITAS then DOMINICA_NATIVITATIS_6
            else DOMINICA_ORDINARII_6)) \<and>
      (getDay d \<noteq> 0 \<longrightarrow>
         (tempus d = TRIDUUM \<longrightarrow> dl_praecedentia (getDiesLiturgicus src d) = TRIDUUM_1) \<and>
         (tempus d = QUADRAGESIMA \<longrightarrow>
            dl_praecedentia (getDiesLiturgicus src d) = FERIA_QUADRAGESIMAE_9) \<and>
         (tempus d = ADVENTUS \<longrightarrow>
            dl_praecedentia (getDiesLiturgicus src d) =
              (if getMonth d = 11 \<and> 17 \<le> getDate d then FERIA_ADVENTUS_17_24_9
               else FERIA_ADVENTUS_13)) \<and>
         (tempus d = NATIVITAS \<longrightarrow>
            dl_praecedentia (getDiesLiturgicus src d) =
              (if getMonth d = 11 \<and> 26 \<le> getDate d \<and> getDate d \<le> 31
               then DIES_OCTAVAE_NATIVITATIS_9 else FERIA_NATIVITATIS_13)) \<and>
         (tempus d = PASCHALE \<longrightarrow> dl_praecedentia (getDiesLiturgicus src d) = FERIA_PASCHAE_13) \<and>
         (tempus d = ORDINARIUM \<longrightarrow>
            dl_praecedentia (getDiesLiturgicus src d) = FERIA_ORDINARII_14)) \<and>
      (100 \<le> Y \<and> feriaIVCinerum Y \<le> d \<and> d < feriaVInCenaDomini Y \<longrightarrow>
         dl_tempus (getDiesLiturgicus src d) = QUADRAGESIMA \<and>
         dl_praecedentia (getDiesLiturgicus src d) =
           (if getDay d = 0 then DOMINICA_PRIVILEGIATA_2 else FERIA_QUADRAGESIMAE_9)) \<and>
      (100 \<le> Y \<and> pascha Y < d \<and> d \<le> pentecostes Y \<longrightarrow>
         dl_tempus (getDiesLiturgicus src d) = PASCHALE \<and>
         dl_praecedentia (getDiesLiturgicus src d) =
           (if getDay d = 0 then DOMINICA_PRIVILEGIATA_2 else FERIA_PASCHAE_13)))"
proof -
  have a: "\<forall>c \<in> set (findCelebrations src d).
      PraecedentiaValue (dl_praecedentia (getDiesLiturgicus src d)) \<le>
      PraecedentiaValue (praecedentia c)"
    using primaryCelebration_least [of _ src d] by (simp add: getDiesLiturgicus_primary)
  have b: "\<exists>c \<in> set_option (findTemporaleCelebration src d) \<union>
             set_option (findSanctoraleCelebration src d).
         dl_id (getDiesLiturgicus src d) = id' c \<and>
         dl_gradus (getDiesLiturgicus src d) = gradus c \<and>
         dl_praecedentia (getDiesLiturgicus src d) = praecedentia c \<and>
         dl_genus (getDiesLiturgicus src d) = genus c \<and>
         dl_colores (getDiesLiturgicus src d) = colores c \<and>
         dl_nomina_la (getDiesLiturgicus src d) = nomina_la c"
    if h: "\<not> (findTemporaleCelebration src d = None \<and> findSanctoraleCelebration src d = None)"
  proof -
    have "set (findCelebrations src d) \<noteq> {}"
      using h by (auto simp: set_findCelebrations)
    then have "findCelebrations src d \<noteq> []" by simp
    then have "primaryCelebration src d \<in> set_option (findTemporaleCelebration src d) \<union>
        set_option (findSanctoraleCelebration src d)"
      using primaryCelebration_found [of src d] by (simp add: set_findCelebrations)
    then show ?thesis
      by (intro bexI [of _ "primaryCelebration src d"]) (simp_all add: getDiesLiturgicus_primary)
  qed
  have c: "dl_date (getDiesLiturgicus src d) = d \<and>
      dl_tempus (getDiesLiturgicus src d) = tempus d \<and>
      dl_genus (getDiesLiturgicus src d) = TEMPORALE \<and>
      dl_gradus (getDiesLiturgicus src d) = (if getDay d = 0 then SOLLEMNITAS else FERIA) \<and>
      dl_id (getDiesLiturgicus src d) =
        toLowerCase (TempusValue (tempus d)) @ ''/week-'' @ numToString (hebdomadaTemporis d) @
        ''/'' @ numToString (getDay d) \<and>
      dl_shortCode (getDiesLiturgicus src d) =
        TempusCodes (tempus d) @ numToString (hebdomadaTemporis d) \<and>
      dl_colores (getDiesLiturgicus src d) = [getDefaultColor (tempus d) d] \<and>
      dl_commemoratio (getDiesLiturgicus src d) = None \<and>
      dl_alternativae (getDiesLiturgicus src d) = None"
    and p: "dl_praecedentia (getDiesLiturgicus src d) = praecedentia (getFerial d)"
    if h: "findTemporaleCelebration src d = None \<and> findSanctoraleCelebration src d = None"
  proof -
    have q: "primaryCelebration src d = getFerial d"
      using h by (simp add: primaryCelebration_none)
    show "dl_praecedentia (getDiesLiturgicus src d) = praecedentia (getFerial d)"
      by (simp add: getDiesLiturgicus_primary q)
    show "dl_date (getDiesLiturgicus src d) = d \<and>
      dl_tempus (getDiesLiturgicus src d) = tempus d \<and>
      dl_genus (getDiesLiturgicus src d) = TEMPORALE \<and>
      dl_gradus (getDiesLiturgicus src d) = (if getDay d = 0 then SOLLEMNITAS else FERIA) \<and>
      dl_id (getDiesLiturgicus src d) =
        toLowerCase (TempusValue (tempus d)) @ ''/week-'' @ numToString (hebdomadaTemporis d) @
        ''/'' @ numToString (getDay d) \<and>
      dl_shortCode (getDiesLiturgicus src d) =
        TempusCodes (tempus d) @ numToString (hebdomadaTemporis d) \<and>
      dl_colores (getDiesLiturgicus src d) = [getDefaultColor (tempus d) d] \<and>
      dl_commemoratio (getDiesLiturgicus src d) = None \<and>
      dl_alternativae (getDiesLiturgicus src d) = None"
      using h by (simp add: getDiesLiturgicus_primary q getFerial_fields getDiesLiturgicus_none
          getDiesLiturgicus_tempus)
  qed
  have s: "getDay d = 0 \<longrightarrow>
         praecedentia (getFerial d) =
           (if tempus d = ADVENTUS \<or> tempus d = QUADRAGESIMA \<or> tempus d = PASCHALE
            then DOMINICA_PRIVILEGIATA_2
            else if tempus d = NATIVITAS then DOMINICA_NATIVITATIS_6
            else DOMINICA_ORDINARII_6)"
    using getFerial_praecedentia_dominica [of d] by simp
  have f: "getDay d \<noteq> 0 \<longrightarrow>
         (tempus d = TRIDUUM \<longrightarrow> praecedentia (getFerial d) = TRIDUUM_1) \<and>
         (tempus d = QUADRAGESIMA \<longrightarrow> praecedentia (getFerial d) = FERIA_QUADRAGESIMAE_9) \<and>
         (tempus d = ADVENTUS \<longrightarrow>
            praecedentia (getFerial d) =
              (if getMonth d = 11 \<and> 17 \<le> getDate d then FERIA_ADVENTUS_17_24_9
               else FERIA_ADVENTUS_13)) \<and>
         (tempus d = NATIVITAS \<longrightarrow>
            praecedentia (getFerial d) =
              (if getMonth d = 11 \<and> 26 \<le> getDate d \<and> getDate d \<le> 31
               then DIES_OCTAVAE_NATIVITATIS_9 else FERIA_NATIVITATIS_13)) \<and>
         (tempus d = PASCHALE \<longrightarrow> praecedentia (getFerial d) = FERIA_PASCHAE_13) \<and>
         (tempus d = ORDINARIUM \<longrightarrow> praecedentia (getFerial d) = FERIA_ORDINARII_14)"
    using getFerial_praecedentia_feria [of d] by blast
  have l: "tempus d = QUADRAGESIMA \<and>
         praecedentia (getFerial d) =
           (if getDay d = 0 then DOMINICA_PRIVILEGIATA_2 else FERIA_QUADRAGESIMAE_9)"
    if h: "100 \<le> Y \<and> feriaIVCinerum Y \<le> d \<and> d < feriaVInCenaDomini Y"
  proof -
    have t: "tempus d = QUADRAGESIMA" using tempus_paschal_intervals(6) [of Y d] h by simp
    show ?thesis using t s f by simp
  qed
  have e: "tempus d = PASCHALE \<and>
         praecedentia (getFerial d) =
           (if getDay d = 0 then DOMINICA_PRIVILEGIATA_2 else FERIA_PASCHAE_13)"
    if h: "100 \<le> Y \<and> pascha Y < d \<and> d \<le> pentecostes Y"
  proof -
    have t: "tempus d = PASCHALE" using tempus_paschal_intervals(7) [of Y d] h by simp
    show ?thesis using t s f by simp
  qed
  have n: "findTemporaleCelebration src d = None \<and> findSanctoraleCelebration src d = None \<longrightarrow>
      dl_tempus (getDiesLiturgicus src d) = tempus d"
    using c by simp
  show ?thesis
    apply (intro conjI impI)
    subgoal using a .
    subgoal using b by simp
    subgoal using c by simp
    subgoal using c by simp
    subgoal using c by simp
    subgoal using c by simp
    subgoal using c by simp
    subgoal using c by simp
    subgoal using c by simp
    subgoal using c by simp
    subgoal using c by simp
    subgoal using s p by simp
    subgoal using f p by simp
    subgoal using f p by simp
    subgoal using f p by simp
    subgoal using f p by simp
    subgoal using f p by simp
    subgoal using f p by simp
    subgoal using l n by simp
    subgoal using l p by simp
    subgoal using e n by simp
    subgoal using e p by simp
    done
qed
text \<open>
  Witness for C7. The example source has no candidate on 18 December 2025 (a Thursday of
  Advent, precedence 9), 9 March 2025 (the first Sunday of Lent, precedence 2), 29 April
  2025 (a Tuesday of the Easter season, precedence 13), 15 July 2025 (a Tuesday in
  Ordinary Time, precedence 14) and 28 December 2025 (a Sunday of the Christmas season,
  precedence 6). On 19 March 2035 it finds Monday of Holy Week and St Joseph; the primary
  is Monday of Holy Week.
\<close>

theorem getDiesLiturgicus_primary_seasonal_witness:
  "findTemporaleCelebration exampleSource (newDate 2025 11 18) = None \<and>
   findSanctoraleCelebration exampleSource (newDate 2025 11 18) = None \<and>
   getDay (newDate 2025 11 18) = 4 \<and> tempus (newDate 2025 11 18) = ADVENTUS \<and>
   dl_id (getDiesLiturgicus exampleSource (newDate 2025 11 18)) = ''adventus/week-3/4'' \<and>
   dl_shortCode (getDiesLiturgicus exampleSource (newDate 2025 11 18)) = ''ADV3'' \<and>
   dl_genus (getDiesLiturgicus exampleSource (newDate 2025 11 18)) = TEMPORALE \<and>
   dl_gradus (getDiesLiturgicus exampleSource (newDate 2025 11 18)) = FERIA \<and>
   dl_colores (getDiesLiturgicus exampleSource (newDate 2025 11 18)) = [VIOLACEUS] \<and>
   dl_praecedentia (getDiesLiturgicus exampleSource (newDate 2025 11 18)) = FERIA_ADVENTUS_17_24_9 \<and>
   findTemporaleCelebration exampleSource (newDate 2025 2 9) = None \<and>
   findSanctoraleCelebration exampleSource (newDate 2025 2 9) = None \<and>
   feriaIVCinerum 2025 \<le> newDate 2025 2 9 \<and> newDate 2025 2 9 < feriaVInCenaDomini 2025 \<and>
   getDay (newDate 2025 2 9) = 0 \<and>
   dl_tempus (getDiesLiturgicus exampleSource (newDate 2025 2 9)) = QUADRAGESIMA \<and>
   dl_gradus (getDiesLiturgicus exampleSource (newDate 2025 2 9)) = SOLLEMNITAS \<and>
   dl_praecedentia (getDiesLiturgicus exampleSource (newDate 2025 2 9)) = DOMINICA_PRIVILEGIATA_2 \<and>
   findTemporaleCelebration exampleSource (newDate 2025 3 29) = None \<and>
   findSanctoraleCelebration exampleSource (newDate 2025 3 29) = None \<and>
   pascha 2025 < newDate 2025 3 29 \<and> newDate 2025 3 29 \<le> pentecostes 2025 \<and>
   getDay (newDate 2025 3 29) = 2 \<and>
   dl_tempus (getDiesLiturgicus exampleSource (newDate 2025 3 29)) = PASCHALE \<and>
   dl_praecedentia (getDiesLiturgicus exampleSource (newDate 2025 3 29)) = FERIA_PASCHAE_13 \<and>
   findTemporaleCelebration exampleSource (newDate 2025 6 15) = None \<and>
   findSanctoraleCelebration exampleSource (newDate 2025 6 15) = None \<and>
   getDay (newDate 2025 6 15) = 2 \<and> tempus (newDate 2025 6 15) = ORDINARIUM \<and>
   dl_id (getDiesLiturgicus exampleSource (newDate 2025 6 15)) = ''ordinarium/week-15/2'' \<and>
   dl_praecedentia (getDiesLiturgicus exampleSource (newDate 2025 6 15)) = FERIA_ORDINARII_14 \<and>
   findTemporaleCelebration exampleSource (newDate 2025 11 28) = None \<and>
   findSanctoraleCelebration exampleSource (newDate 2025 11 28) = None \<and>
   getDay (newDate 2025 11 28) = 0 \<and> tempus (newDate 2025 11 28) = NATIVITAS \<and>
   dl_praecedentia (getDiesLiturgicus exampleSource (newDate 2025 11 28)) = DOMINICA_NATIVITATIS_6 \<and>
   findTemporaleCelebration exampleSource (newDate 2035 2 19) = Some holyMonday \<and>
   findSanctoraleCelebration exampleSource (newDate 2035 2 19) = Some stJoseph \<and>
   PraecedentiaValue (praecedentia holyMonday) = 203 \<and>
   PraecedentiaValue (praecedentia stJoseph) = 300 \<and>
   dl_id (getDiesLiturgicus exampleSource (newDate 2035 2 19)) = ''monday_of_holy_week''"
proof -
  note A = getDiesLiturgicus_primary_seasonal [of exampleSource "newDate 2025 11 18" 2025]
  have a: "findTemporaleCelebration exampleSource (newDate 2025 11 18) = None"
    "findSanctoraleCelebration exampleSource (newDate 2025 11 18) = None"
    "getDay (newDate 2025 11 18) = 4" "tempus (newDate 2025 11 18) = ADVENTUS"
    "getMonth (newDate 2025 11 18) = 11" "getDate (newDate 2025 11 18) = 18"
    by code_simp+
  have a1: "toLowerCase (TempusValue (tempus (newDate 2025 11 18))) @ ''/week-'' @
      numToString (hebdomadaTemporis (newDate 2025 11 18)) @ ''/'' @
      numToString (getDay (newDate 2025 11 18)) = ''adventus/week-3/4''"
    "TempusCodes (tempus (newDate 2025 11 18)) @
      numToString (hebdomadaTemporis (newDate 2025 11 18)) = ''ADV3''"
    "[getDefaultColor (tempus (newDate 2025 11 18)) (newDate 2025 11 18)] = [VIOLACEUS]"
    by code_simp+
  have a2: "dl_id (getDiesLiturgicus exampleSource (newDate 2025 11 18)) =
      toLowerCase (TempusValue (tempus (newDate 2025 11 18))) @ ''/week-'' @
      numToString (hebdomadaTemporis (newDate 2025 11 18)) @ ''/'' @
      numToString (getDay (newDate 2025 11 18))"
    "dl_shortCode (getDiesLiturgicus exampleSource (newDate 2025 11 18)) =
      TempusCodes (tempus (newDate 2025 11 18)) @
      numToString (hebdomadaTemporis (newDate 2025 11 18))"
    "dl_colores (getDiesLiturgicus exampleSource (newDate 2025 11 18)) =
      [getDefaultColor (tempus (newDate 2025 11 18)) (newDate 2025 11 18)]"
    using A a(1,2) by blast+
  have a3: "dl_id (getDiesLiturgicus exampleSource (newDate 2025 11 18)) = ''adventus/week-3/4''"
    "dl_shortCode (getDiesLiturgicus exampleSource (newDate 2025 11 18)) = ''ADV3''"
    "dl_colores (getDiesLiturgicus exampleSource (newDate 2025 11 18)) = [VIOLACEUS]"
    using a2 a1 by (simp_all only:)
  have a4: "dl_genus (getDiesLiturgicus exampleSource (newDate 2025 11 18)) = TEMPORALE"
    "dl_gradus (getDiesLiturgicus exampleSource (newDate 2025 11 18)) = FERIA"
    "dl_praecedentia (getDiesLiturgicus exampleSource (newDate 2025 11 18)) = FERIA_ADVENTUS_17_24_9"
    using A a by simp_all
  note B = getDiesLiturgicus_primary_seasonal [of exampleSource "newDate 2025 2 9" 2025]
  have b: "findTemporaleCelebration exampleSource (newDate 2025 2 9) = None"
    "findSanctoraleCelebration exampleSource (newDate 2025 2 9) = None"
    "feriaIVCinerum 2025 \<le> newDate 2025 2 9" "newDate 2025 2 9 < feriaVInCenaDomini 2025"
    "getDay (newDate 2025 2 9) = 0" "tempus (newDate 2025 2 9) = QUADRAGESIMA"
    by code_simp+
  have b1: "dl_tempus (getDiesLiturgicus exampleSource (newDate 2025 2 9)) = QUADRAGESIMA"
    "dl_gradus (getDiesLiturgicus exampleSource (newDate 2025 2 9)) = SOLLEMNITAS"
    "dl_praecedentia (getDiesLiturgicus exampleSource (newDate 2025 2 9)) = DOMINICA_PRIVILEGIATA_2"
    using B b by simp_all
  note C = getDiesLiturgicus_primary_seasonal [of exampleSource "newDate 2025 3 29" 2025]
  have c: "findTemporaleCelebration exampleSource (newDate 2025 3 29) = None"
    "findSanctoraleCelebration exampleSource (newDate 2025 3 29) = None"
    "pascha 2025 < newDate 2025 3 29" "newDate 2025 3 29 \<le> pentecostes 2025"
    "getDay (newDate 2025 3 29) = 2" "tempus (newDate 2025 3 29) = PASCHALE"
    by code_simp+
  have c1: "dl_tempus (getDiesLiturgicus exampleSource (newDate 2025 3 29)) = PASCHALE"
    "dl_praecedentia (getDiesLiturgicus exampleSource (newDate 2025 3 29)) = FERIA_PASCHAE_13"
    using C c by simp_all
  note D = getDiesLiturgicus_primary_seasonal [of exampleSource "newDate 2025 6 15" 2025]
  have d: "findTemporaleCelebration exampleSource (newDate 2025 6 15) = None"
    "findSanctoraleCelebration exampleSource (newDate 2025 6 15) = None"
    "getDay (newDate 2025 6 15) = 2" "tempus (newDate 2025 6 15) = ORDINARIUM"
    by code_simp+
  have d1: "toLowerCase (TempusValue (tempus (newDate 2025 6 15))) @ ''/week-'' @
      numToString (hebdomadaTemporis (newDate 2025 6 15)) @ ''/'' @
      numToString (getDay (newDate 2025 6 15)) = ''ordinarium/week-15/2''"
    by code_simp
  have d2: "dl_id (getDiesLiturgicus exampleSource (newDate 2025 6 15)) =
      toLowerCase (TempusValue (tempus (newDate 2025 6 15))) @ ''/week-'' @
      numToString (hebdomadaTemporis (newDate 2025 6 15)) @ ''/'' @
      numToString (getDay (newDate 2025 6 15))"
    using D d(1,2) by blast
  have d3: "dl_id (getDiesLiturgicus exampleSource (newDate 2025 6 15)) = ''ordinarium/week-15/2''"
    using d2 d1 by (simp only:)
  have d4: "dl_praecedentia (getDiesLiturgicus exampleSource (newDate 2025 6 15)) = FERIA_ORDINARII_14"
    using D d by simp
  note E = getDiesLiturgicus_primary_seasonal [of exampleSource "newDate 2025 11 28" 2025]
  have e: "findTemporaleCelebration exampleSource (newDate 2025 11 28) = None"
    "findSanctoraleCelebration exampleSource (newDate 2025 11 28) = None"
    "getDay (newDate 2025 11 28) = 0" "tempus (newDate 2025 11 28) = NATIVITAS"
    by code_simp+
  have e1: "dl_praecedentia (getDiesLiturgicus exampleSource (newDate 2025 11 28)) = DOMINICA_NATIVITATIS_6"
    using E e by simp
  note F = getDiesLiturgicus_primary_seasonal [of exampleSource "newDate 2035 2 19" 2035]
  have f: "findTemporaleCelebration exampleSource (newDate 2035 2 19) = Some holyMonday"
    "findSanctoraleCelebration exampleSource (newDate 2035 2 19) = Some stJoseph"
    "PraecedentiaValue (praecedentia holyMonday) = 203"
    "PraecedentiaValue (praecedentia stJoseph) = 300"
    "id' holyMonday = ''monday_of_holy_week''"
    by code_simp+
  have f0: "set (findCelebrations exampleSource (newDate 2035 2 19)) = {holyMonday, stJoseph}"
    using f(1,2) by (auto simp: set_findCelebrations)
  have f1: "PraecedentiaValue (dl_praecedentia (getDiesLiturgicus exampleSource (newDate 2035 2 19))) \<le> 203"
    using F f0 f(3) by simp
  have f2: "dl_praecedentia (getDiesLiturgicus exampleSource (newDate 2035 2 19)) \<noteq> praecedentia stJoseph"
    using f1 f(4) by auto
  have f3: "dl_id (getDiesLiturgicus exampleSource (newDate 2035 2 19)) = ''monday_of_holy_week''"
    using F f(1,2,5) f2 by auto
  show ?thesis
    using a(1-4) a3 a4 b(1-5) b1 c(1-5) c1 d d3 d4 e e1 f(1-4) f3 by simp
qed

text \<open>
  Claim C8. For every year \<open>Y\<close>, \<open>dominicaIAdventus Y\<close> is a Sunday and lies between 22
  and 28 whole days before 25 December of \<open>Y\<close> (\<open>nativitas Y\<close>), so it is the fourth
  Sunday before Christmas; when Christmas is itself a Sunday the distance is 28 days.
\<close>

theorem dominicaIAdventus_fourth_sunday:
  "getDay (dominicaIAdventus Y) = 0 \<and>
   22 \<le> diesInter (dominicaIAdventus Y) (nativitas Y) \<and>
   diesInter (dominicaIAdventus Y) (nativitas Y) \<le> 28 \<and>
   addDies (dominicaIAdventus Y) (diesInter (dominicaIAdventus Y) (nativitas Y)) = nativitas Y \<and>
   (getDay (nativitas Y) = 0 \<longrightarrow> diesInter (dominicaIAdventus Y) (nativitas Y) = 28)"
proof -
  define n where "n = newDate Y 11 25"
  define w where "w = (if getDay n = 0 then 7 else getDay n)"
  have w: "1 \<le> w" "w \<le> 7"
    using getDay_range [of n] by (simp_all add: w_def)
  have w7: "(getDay n - w) mod 7 = 0"
    by (cases "getDay n = 0") (simp_all add: w_def)
  have a: "dominicaIAdventus Y = n + (- (21 + w)) * msPerDay"
    unfolding dominicaIAdventus_def Let_def addDies_eq n_def [symmetric] w_def [symmetric] ..
  have "getDay (dominicaIAdventus Y) = (getDay n + (- (21 + w))) mod 7"
    unfolding a by (rule getDay_add)
  also have "\<dots> = (getDay n - w + (- 3) * 7) mod 7"
    by (simp add: algebra_simps)
  also have "\<dots> = (getDay n - w) mod 7"
    by (rule mod_mult_self1)
  finally have s: "getDay (dominicaIAdventus Y) = 0" using w7 by simp
  have "n - (n + (- (21 + w)) * msPerDay) = (21 + w) * msPerDay"
    by (simp add: algebra_simps)
  then have d: "diesInter (dominicaIAdventus Y) (nativitas Y) = 21 + w"
    unfolding diesInter_def getTime_def a nativitas_def n_def [symmetric]
    by (simp add: msPerDay_def)
  have b: "addDies (dominicaIAdventus Y) (21 + w) = nativitas Y"
    unfolding addDies_eq a nativitas_def n_def [symmetric] by (simp add: algebra_simps)
  have c: "getDay (nativitas Y) = 0 \<longrightarrow> 21 + w = 28"
    unfolding nativitas_def n_def [symmetric] by (simp add: w_def)
  show ?thesis
    unfolding d using s w(1,2) b c by simp
qed

text \<open>
  Witness for C8: in 2022 Christmas falls on a Sunday, and the First Sunday of Advent is
  28 days earlier.
\<close>

theorem dominicaIAdventus_fourth_sunday_witness:
  "getDay (nativitas 2022) = 0 \<and> getDay (dominicaIAdventus 2022) = 0 \<and>
   diesInter (dominicaIAdventus 2022) (nativitas 2022) = 28"
proof -
  have h: "getDay (nativitas 2022) = 0" by code_simp
  show ?thesis using dominicaIAdventus_fourth_sunday [of 2022] h by simp
qed


text \<open>
  Claim C9 says that an invalid calendar date such as 30 February is answered with an
  error. \<open>dies\<close> hands year, month and day to the \<open>Date\<close> constructor, which carries the
  surplus days into March: for 30 February 2025 the library returns the resolved day of
  2 March 2025.
\<close>

theorem dies_february_30_counterexample:
  "diesYMD exampleSource 2025 2 30 = Returned (getDiesLiturgicus exampleSource (newDate 2025 2 2)) \<and>
   ymd (newDate 2025 1 30) = (2025, 3, 2) \<and>
   diesYMD exampleSource 2025 2 30 = diesYMD exampleSource 2025 3 2"
proof -
  have "newDate 2025 1 30 = newDate 2025 2 2" by code_simp
  moreover have "ymd (newDate 2025 1 30) = (2025, 3, 2)" by code_simp
  ultimately show ?thesis by (simp add: diesYMD_def)
qed

text \<open>
  Claim C9, amended: the library signals no error for any year, month and day; \<open>dies\<close>
  returns the resolved day of the date that the \<open>Date\<close> constructor normalises them to.
  For 30 February that is 1 March in a leap year and 2 March otherwise.
\<close>

theorem dies_never_throws:
  "(\<exists>r. diesYMD src y m d = Returned r) \<and>
   diesYMD src y 2 30 =
     diesYMD src y 3
       (if DaysInYear (if 0 \<le> y \<and> y \<le> 99 then 1900 + y else y) = 366 then 1 else 2)"
proof -
  have "newDate y 1 30 =
      newDate y 2 (if DaysInYear (if 0 \<le> y \<and> y \<le> 99 then 1900 + y else y) = 366 then 1 else 2)"
    by (simp add: newDate_month DayFromMonth_def)
  then show ?thesis by (simp add: diesYMD_def)
qed

text \<open>
  Claim C10. For every date, \<open>findCelebrations\<close> returns at most two entries: what the
  Temporale lookup returns, if anything, and what the Sanctorale lookup returns, if
  anything (the lookup hands over one candidate even when several fixed feasts share the
  day). The list is in ascending order of \<open>PraecedentiaValue\<close>, so its head has a least
  value among its elements.
\<close>

theorem findCelebrations_two_sorted:
  "length (findCelebrations src d) \<le> 2 \<and>
   length (findCelebrations src d) =
     (case findTemporaleCelebration src d of Some t \<Rightarrow> 1 | None \<Rightarrow> 0) +
     (case findSanctoraleCelebration src d of Some s \<Rightarrow> 1 | None \<Rightarrow> 0) \<and>
   set (findCelebrations src d) =
     set_option (findTemporaleCelebration src d) \<union> set_option (findSanctoraleCelebration src d) \<and>
   sorted (map (\<lambda>c. PraecedentiaValue (praecedentia c)) (findCelebrations src d)) \<and>
   (\<forall>c cs. findCelebrations src d = c # cs \<longrightarrow>
      (\<forall>x \<in> set (c # cs). PraecedentiaValue (praecedentia c) \<le> PraecedentiaValue (praecedentia x)))"
proof -
  have "length (findCelebrations src d) \<le> 2"
    by (simp add: length_findCelebrations split: option.splits)
  moreover have "\<forall>c cs. findCelebrations src d = c # cs \<longrightarrow>
      (\<forall>x \<in> set (c # cs). PraecedentiaValue (praecedentia c) \<le> PraecedentiaValue (praecedentia x))"
    using head_findCelebrations by blast
  ultimately show ?thesis
    using length_findCelebrations [of src d] set_findCelebrations [of src d]
      sorted_findCelebrations [of src d] by simp
qed

text \<open>
  Witness for C10: on 19 March 2035 the Temporale lookup returns Holy Week Monday (203)
  and the Sanctorale lookup St Joseph (300); the list is the two in that order.
\<close>

theorem findCelebrations_two_sorted_witness:
  "findCelebrations exampleSource (newDate 2035 2 19) = [holyMonday, stJoseph] \<and>
   PraecedentiaValue (praecedentia holyMonday) \<le> PraecedentiaValue (praecedentia holyMonday) \<and>
   PraecedentiaValue (praecedentia holyMonday) \<le> PraecedentiaValue (praecedentia stJoseph)"
proof -
  have e: "findCelebrations exampleSource (newDate 2035 2 19) = [holyMonday, stJoseph]"
    by code_simp
  show ?thesis
    using findCelebrations_two_sorted [of exampleSource "newDate 2035 2 19"] e by simp
qed

end
